(* ===== verification/Prelude.thy ===== *)
theory Prelude
  imports Complex_Main "HOL-Library.Multiset" "HOL-Library.List_Lexorder" "HOL-Library.Char_ord"
    "HOL-Library.Sublist" "HOL-Library.Product_Lexorder"
begin

text \<open>
  Shared vocabulary of the dashboard model: Python's exceptions as an error type,
  characters read as code points below 256 (Latin-1, the part of Unicode an Isabelle
  \<open>char\<close> can hold), Python's notion of whitespace and lower case on them, decimal
  digits, and generic lemmas on lists and counting used by every component.
\<close>

named_theorems py_simps "equations of the Python primitives, for evaluation"
named_theorems count_simps "counting lemmas shared by the aggregate proofs"

section \<open>Errors\<close>

text \<open>The exceptions the dashboard script can raise. \<open>KeyError\<close> carries the key
  it was raised with: a column label (\<open>df['Country']\<close>) or a list of labels
  (\<open>dropna(subset=['Year'])\<close> raises \<open>KeyError(['Year'])\<close>); \<open>ValueError\<close>,
  \<open>TypeError\<close>, \<open>OverflowError\<close> and \<open>AttributeError\<close> carry the offending text or
  attribute.\<close>

datatype py_key = KLabel string | KLabels "string list"

datatype py_error =
    KeyError py_key
  | ValueError string
  | TypeError string
  | OverflowError string
  | AttributeError string

type_synonym 'a py = "py_error + 'a"

text \<open>A Python loop that applies a fallible step to each element in order and stops
  at the first exception.\<close>

fun map_py :: "('a \<Rightarrow> 'b py) \<Rightarrow> 'a list \<Rightarrow> 'b list py" where
  "map_py f [] = Inr []"
| "map_py f (x # xs) =
     (case f x of Inl e \<Rightarrow> Inl e | Inr y \<Rightarrow> (case map_py f xs of Inl e \<Rightarrow> Inl e | Inr ys \<Rightarrow> Inr (y # ys)))"

section \<open>Characters\<close>

text \<open>CPython's \<open>str.isspace\<close> on the code points 0..255: tab to carriage return,
  the four separators 0x1C..0x1F, space, NEL (0x85) and no-break space (0xA0).\<close>

definition is_py_space :: "char \<Rightarrow> bool" where
  "is_py_space c \<longleftrightarrow>
     (let n = of_char c :: nat in (9 \<le> n \<and> n \<le> 13) \<or> (28 \<le> n \<and> n \<le> 32) \<or> n = 133 \<or> n = 160)"

text \<open>\<open>str.lower\<close> on Latin-1: A..Z and the upper-case letters 0xC0..0xDE (but the
  multiplication sign 0xD7) move up by 32; every other code point is its own lower case.\<close>

definition py_lower_char :: "char \<Rightarrow> char" where
  "py_lower_char c =
     (let n = of_char c :: nat in
      if (65 \<le> n \<and> n \<le> 90) \<or> (192 \<le> n \<and> n \<le> 222 \<and> n \<noteq> 215) then char_of (n + 32) else c)"

definition py_lower :: "string \<Rightarrow> string" where
  "py_lower s = map py_lower_char s"

text \<open>\<open>str.strip()\<close> with no argument: drop whitespace at both ends.\<close>

definition py_strip :: "string \<Rightarrow> string" where
  "py_strip s = rev (dropWhile is_py_space (rev (dropWhile is_py_space s)))"

text \<open>An ASCII decimal digit, its value, and the digit of a value below ten.\<close>

definition is_digit :: "char \<Rightarrow> bool" where
  "is_digit c \<longleftrightarrow> (let n = of_char c :: nat in 48 \<le> n \<and> n \<le> 57)"

definition digit_value :: "char \<Rightarrow> nat" where
  "digit_value c = of_char c - 48"

definition digit_char :: "nat \<Rightarrow> char" where
  "digit_char d = char_of (48 + d)"

declare is_py_space_def [py_simps] py_lower_char_def [py_simps] py_lower_def [py_simps]
  py_strip_def [py_simps] is_digit_def [py_simps] digit_value_def [py_simps]
  digit_char_def [py_simps]

section \<open>Lemmas on characters and strings\<close>

lemma digit_char_is_digit [simp]: "d < 10 \<Longrightarrow> is_digit (digit_char d)"
  by (simp add: is_digit_def digit_char_def)

lemma digit_value_digit_char [simp]: "d < 10 \<Longrightarrow> digit_value (digit_char d) = d"
  by (simp add: digit_value_def digit_char_def)

lemma digit_char_not_space [simp]: "d < 10 \<Longrightarrow> \<not> is_py_space (digit_char d)"
  by (simp add: is_py_space_def digit_char_def)

lemma digit_value_less: "is_digit c \<Longrightarrow> digit_value c < 10"
  unfolding is_digit_def digit_value_def Let_def by linarith

lemma is_digit_not_space: "is_digit c \<Longrightarrow> \<not> is_py_space c"
  by (simp add: is_digit_def is_py_space_def Let_def)

lemma is_digit_not_punct:
  "is_digit c \<Longrightarrow> c \<noteq> CHR ''-'' \<and> c \<noteq> CHR ''+'' \<and> c \<noteq> CHR ''.'' \<and> c \<noteq> CHR ''_'' \<and> c \<noteq> CHR '' ''"
  by (auto simp: is_digit_def)

lemma digit_char_inj: "d < 10 \<Longrightarrow> e < 10 \<Longrightarrow> digit_char d = digit_char e \<longleftrightarrow> d = e"
  by (metis digit_value_digit_char)

lemma dropWhile_idem [simp]: "dropWhile P (dropWhile P xs) = dropWhile P xs"
  by (induction xs) auto

lemma dropWhile_rev_keep: "\<not> P c \<Longrightarrow> \<exists>us. dropWhile P (rev (c # cs)) = us @ [c]"
  by (auto simp: dropWhile_append)

lemma py_strip_hd: "py_strip s \<noteq> [] \<Longrightarrow> \<not> is_py_space (hd (py_strip s))"
proof -
  assume ne: "py_strip s \<noteq> []"
  let ?t = "dropWhile is_py_space s"
  have tne: "?t \<noteq> []"
  proof
    assume e: "?t = []"
    have "py_strip s = []" unfolding py_strip_def by (simp only: e rev.simps dropWhile.simps)
    with ne show False by simp
  qed
  then obtain c cs where t: "?t = c # cs" by (meson neq_Nil_conv)
  have c: "\<not> is_py_space c" using hd_dropWhile [OF tne] by (simp add: t)
  obtain us where "dropWhile is_py_space (rev (c # cs)) = us @ [c]"
    using dropWhile_rev_keep [of is_py_space c cs] c by blast
  then have "py_strip s = c # rev us" by (simp add: py_strip_def t)
  then show ?thesis using c by simp
qed

lemma py_strip_last: "py_strip s \<noteq> [] \<Longrightarrow> \<not> is_py_space (last (py_strip s))"
proof -
  assume ne: "py_strip s \<noteq> []"
  let ?u = "dropWhile is_py_space (rev (dropWhile is_py_space s))"
  have "?u \<noteq> []" using ne by (simp add: py_strip_def)
  then have "\<not> is_py_space (hd ?u)" by (simp add: hd_dropWhile)
  then show ?thesis using \<open>?u \<noteq> []\<close> by (simp add: py_strip_def last_rev)
qed

lemma py_strip_no_space_ends:
  assumes "xs \<noteq> []" "\<not> is_py_space (hd xs)" "\<not> is_py_space (last xs)"
  shows "py_strip xs = xs"
proof -
  have "dropWhile is_py_space xs = xs" using assms(1,2) by (cases xs) auto
  moreover have "dropWhile is_py_space (rev xs) = rev xs"
  proof -
    obtain y ys where r: "rev xs = y # ys" using assms(1) by (cases "rev xs") auto
    then have "y = last xs" by (metis last_snoc rev_eq_Cons_iff)
    then have "dropWhile is_py_space (y # ys) = y # ys" using assms(3) by simp
    then show ?thesis by (simp only: r)
  qed
  ultimately show ?thesis unfolding py_strip_def by (simp only: rev_rev_ident)
qed

lemma py_strip_idem: "py_strip (py_strip s) = py_strip s"
proof (cases "py_strip s = []")
  case True
  have "py_strip [] = []" by (simp add: py_strip_def)
  with True show ?thesis by simp
next
  case False
  then show ?thesis by (simp add: py_strip_no_space_ends py_strip_hd py_strip_last)
qed

lemma py_strip_pad:
  assumes "list_all is_py_space u" "list_all is_py_space w"
    and "xs \<noteq> []" "\<not> is_py_space (hd xs)" "\<not> is_py_space (last xs)"
  shows "py_strip (u @ xs @ w) = xs"
proof -
  have "dropWhile is_py_space (u @ xs @ w) = dropWhile is_py_space (xs @ w)"
    using assms(1) by (simp add: dropWhile_append2 list_all_iff)
  also have "\<dots> = xs @ w" using assms(3,4) by (cases xs) auto
  finally have l: "dropWhile is_py_space (u @ xs @ w) = xs @ w" .
  have "\<forall>x\<in>set (rev w). is_py_space x" using assms(2) by (simp add: list_all_iff)
  then have "dropWhile is_py_space (rev (xs @ w)) = dropWhile is_py_space (rev xs)"
    by (simp only: rev_append dropWhile_append2)
  also have "\<dots> = rev xs"
    using py_strip_no_space_ends [OF assms(3-5)] assms(3,4) by (cases xs) (auto simp: py_strip_def)
  finally show ?thesis using l by (simp add: py_strip_def)
qed

section \<open>Halving under the floor\<close>

lemma floor_half_less: "1 \<le> (x::rat) \<Longrightarrow> \<lfloor>x / 2\<rfloor> < \<lfloor>x\<rfloor>"
proof (cases "2 \<le> x")
  case True
  then have "x / 2 \<le> x - 1" by simp
  then have "\<lfloor>x / 2\<rfloor> \<le> \<lfloor>x - 1\<rfloor>" by (rule floor_mono)
  then show ?thesis by simp
next
  case False
  assume "1 \<le> x"
  with False have "\<lfloor>x / 2\<rfloor> = 0" by (simp add: floor_eq_iff)
  moreover from \<open>1 \<le> x\<close> have "1 \<le> \<lfloor>x\<rfloor>" by (simp add: le_floor_iff)
  ultimately show ?thesis by simp
qed

lemma floor_half_nat_less: "1 \<le> (x::rat) \<Longrightarrow> nat \<lfloor>x / 2\<rfloor> < nat \<lfloor>x\<rfloor>"
proof -
  assume x: "1 \<le> x"
  then have "0 \<le> \<lfloor>x / 2\<rfloor>" by simp
  with x floor_half_less [OF x] show ?thesis by simp
qed

section \<open>The fallible loop\<close>

lemma map_py_Inr:
  "map_py f xs = Inr ys \<longleftrightarrow> length ys = length xs \<and> (\<forall>i < length xs. f (xs ! i) = Inr (ys ! i))"
proof (induction xs arbitrary: ys)
  case Nil
  then show ?case by auto
next
  case (Cons x xs)
  show ?case
  proof
    assume "map_py f (x # xs) = Inr ys"
    then obtain y ys' where "f x = Inr y" "map_py f xs = Inr ys'" "ys = y # ys'"
      by (auto split: sum.splits)
    with Cons.IH show "length ys = length (x # xs) \<and> (\<forall>i<length (x # xs). f ((x # xs) ! i) = Inr (ys ! i))"
      by (auto simp: nth_Cons split: nat.splits)
  next
    assume r: "length ys = length (x # xs) \<and> (\<forall>i<length (x # xs). f ((x # xs) ! i) = Inr (ys ! i))"
    then obtain y ys' where ys: "ys = y # ys'" by (cases ys) auto
    with r have "f x = Inr y" by auto
    moreover from r ys have "map_py f xs = Inr ys'"
      using Cons.IH by fastforce
    ultimately show "map_py f (x # xs) = Inr ys" using ys by simp
  qed
qed

lemma map_py_Inl: "(\<exists>e. map_py f xs = Inl e) \<longleftrightarrow> (\<exists>x\<in>set xs. \<exists>e. f x = Inl e)"
  by (induction xs) (auto split: sum.splits)

text \<open>The error of the loop is the error of the first element that fails.\<close>

lemma map_py_Inl_elem: "map_py f xs = Inl e \<Longrightarrow> \<exists>x\<in>set xs. f x = Inl e"
  by (induction xs) (auto split: sum.splits)

section \<open>Counting\<close>

lemma sum_list_map_count_list [count_simps]:
  "distinct ks \<Longrightarrow> set xs \<subseteq> set ks \<Longrightarrow> (\<Sum>k\<leftarrow>ks. count_list xs k) = length xs"
  by (simp add: sum_list_distinct_conv_sum_set sum_count_set)

lemma count_list_filter [count_simps]:
  "count_list (filter P xs) k = (if P k then count_list xs k else 0)"
  by (induction xs) auto

end
