(* ===== verification/Decimal.thy ===== *)
theory Decimal
  imports Prelude
begin

text \<open>
  The number-to-text conversions the dashboard relies on: Python's \<open>str\<close> of an
  integer (slider marks, KPI values, the debug line), Python's \<open>int(str)\<close> (the
  conversion \<open>astype(int)\<close> applies to a text cell of the Year column), the
  built-in \<open>round(x, 2)\<close> and the text Python prints for the rounded success rate.
\<close>

section \<open>Printing integers\<close>

text \<open>\<open>str(n)\<close> for \<open>n \<ge> 0\<close>: the decimal digits, most significant first.\<close>

fun str_nat :: "nat \<Rightarrow> string" where
  "str_nat n = (if n < 10 then [digit_char n] else str_nat (n div 10) @ [digit_char (n mod 10)])"

declare str_nat.simps [simp del]

text \<open>\<open>str(i)\<close> for any Python integer.\<close>

definition str_int :: "int \<Rightarrow> string" where
  "str_int i = (if i < 0 then CHR ''-'' # str_nat (nat (- i)) else str_nat (nat i))"

section \<open>Parsing integers\<close>

text \<open>
  The digits part of CPython's \<open>int(s)\<close> in base 10: one or more ASCII digits, where a
  single underscore may separate two digits. \<open>after_digit\<close> records whether the last
  character read was a digit; the accumulator \<open>n\<close> is the value read so far.
\<close>

fun parse_digits :: "nat \<Rightarrow> bool \<Rightarrow> string \<Rightarrow> nat option" where
  "parse_digits n after_digit [] = (if after_digit then Some n else None)"
| "parse_digits n after_digit (c # cs) =
     (if is_digit c then parse_digits (10 * n + digit_value c) True cs
      else if c = CHR ''_'' \<and> after_digit then parse_digits n False cs
      else None)"

text \<open>
  \<open>int(s)\<close>: surrounding whitespace is ignored, an optional sign precedes the digits,
  and anything else raises \<open>ValueError\<close>.
\<close>

text \<open>The optional sign in front of the digits: its factor and the rest of the text.\<close>

definition split_sign :: "string \<Rightarrow> int \<times> string" where
  "split_sign t =
     (case t of
        c # r \<Rightarrow> if c = CHR ''-'' then (-1, r) else if c = CHR ''+'' then (1, r) else (1, t)
      | [] \<Rightarrow> (1, []))"

definition parse_int :: "string \<Rightarrow> int py" where
  "parse_int s =
     (case split_sign (py_strip s) of
        (sign, body) \<Rightarrow>
          (case parse_digits 0 False body of
             None \<Rightarrow> Inl (ValueError s)
           | Some n \<Rightarrow> Inr (sign * int n)))"

section \<open>Rounding and printing the success rate\<close>

text \<open>
  \<open>round(x, 2)\<close> rounds to the nearest hundredth, ties to even. It is applied to the
  exact value of a double (see \<open>py_round2\<close>); the result is counted in hundredths.
\<close>

definition round_half_even :: "rat \<Rightarrow> int" where
  "round_half_even q =
     (let f = \<lfloor>q\<rfloor>; d = q - of_int f in
      if d < 1/2 then f else if 1/2 < d then f + 1 else if even f then f else f + 1)"

section \<open>Binary64 floating point\<close>

text \<open>
  Python's \<open>/\<close> on integers and \<open>*\<close> on floats round the exact result to the nearest
  IEEE-754 double, ties to even. For a non-zero rational \<open>q\<close>, \<open>binexp q\<close> is the \<open>e\<close> with
  \<open>2^e \<le> |q| < 2^(e+1)\<close>; the double nearest to \<open>q\<close> keeps 53 significant bits. Overflow
  and subnormal numbers do not arise for the values rounded here (between \<open>1/n\<close> and 100
  for a row count \<open>n\<close>) and are not modelled.
\<close>

function binexp_up :: "rat \<Rightarrow> nat" where
  "binexp_up q = (if 2 \<le> q then Suc (binexp_up (q / 2)) else 0)"
  by pat_completeness auto
termination
  by (relation "measure (\<lambda>q. nat \<lfloor>q\<rfloor>)") (auto intro: floor_half_less)

function binexp_down :: "rat \<Rightarrow> nat" where
  "binexp_down q = (if 0 < q \<and> q < 1 then Suc (binexp_down (2 * q)) else 0)"
  by pat_completeness auto
termination
proof (relation "measure (\<lambda>q. nat \<lfloor>1 / q\<rfloor>)")
  fix q :: rat
  assume q: "0 < q \<and> q < 1"
  then have "1 \<le> 1 / q" by simp
  moreover have "1 / (2 * q) = (1 / q) / 2" by simp
  ultimately show "(2 * q, q) \<in> measure (\<lambda>q. nat \<lfloor>1 / q\<rfloor>)"
    using floor_half_nat_less [of "1 / q"] by (simp add: mult.commute)
qed simp

declare binexp_up.simps [simp del] binexp_down.simps [simp del]

definition binexp :: "rat \<Rightarrow> int" where
  "binexp q = (if 1 \<le> q then int (binexp_up q) else - int (binexp_down q))"

definition pow2 :: "int \<Rightarrow> rat" where
  "pow2 e = (if 0 \<le> e then 2 ^ nat e else 1 / 2 ^ nat (- e))"

definition to_double :: "rat \<Rightarrow> rat" where
  "to_double q =
     (if q = 0 then 0
      else let unit = pow2 (binexp \<bar>q\<bar>) / 2 ^ 52 in of_int (round_half_even (q / unit)) * unit)"

text \<open>
  \<open>round(x, 2)\<close> on a float rounds the exact binary value of \<open>x\<close> to the nearest
  hundredth, ties to even; the result is counted in hundredths.
\<close>

definition py_round2 :: "rat \<Rightarrow> int" where
  "py_round2 x = round_half_even (x * 100)"

text \<open>
  The text of a non-negative float that has at most two decimals, given as its count
  \<open>h\<close> of hundredths: Python's shortest repr, the integer part, a point and one or two
  fractional digits (\<open>100.0\<close>, \<open>12.5\<close>, \<open>66.67\<close>, \<open>3.05\<close>).
\<close>

definition repr_hundredths :: "nat \<Rightarrow> string" where
  "repr_hundredths h =
     str_nat (h div 100) @ CHR ''.'' #
     (let d1 = h mod 100 div 10; d2 = h mod 10 in
      if d2 = 0 then [digit_char d1] else [digit_char d1, digit_char d2])"

section \<open>Lemmas\<close>

lemma str_nat_ne [simp]: "str_nat n \<noteq> []"
  by (subst str_nat.simps) simp

lemma str_nat_digits: "c \<in> set (str_nat n) \<Longrightarrow> is_digit c"
proof (induction n rule: str_nat.induct)
  case (1 n)
  then show ?case
    by (cases "n < 10") (auto simp: str_nat.simps [of n])
qed

lemma parse_digits_str_nat:
  "parse_digits k b (str_nat m @ cs) = parse_digits (k * 10 ^ length (str_nat m) + m) True cs"
proof (induction m arbitrary: k b cs rule: str_nat.induct)
  case (1 m)
  show ?case
  proof (cases "m < 10")
    case True
    then show ?thesis by (simp add: str_nat.simps [of m] mult.commute)
  next
    case False
    let ?L = "length (str_nat (m div 10))"
    have "parse_digits k b (str_nat m @ cs)
        = parse_digits k b (str_nat (m div 10) @ digit_char (m mod 10) # cs)"
      using False by (simp add: str_nat.simps [of m])
    also have "\<dots> = parse_digits (k * 10 ^ ?L + m div 10) True (digit_char (m mod 10) # cs)"
      using "1.IH" False by simp
    also have "\<dots> = parse_digits (10 * (k * 10 ^ ?L + m div 10) + m mod 10) True cs"
      by simp
    also have "10 * (k * 10 ^ ?L + m div 10) + m mod 10 = k * 10 ^ Suc ?L + m"
      by simp
    finally show ?thesis using False by (simp add: str_nat.simps [of m])
  qed
qed

lemma parse_digits_str_nat_all: "parse_digits 0 b (str_nat m) = Some m"
  using parse_digits_str_nat [of 0 b m "[]"] by simp

lemma str_int_ends:
  "str_int i \<noteq> [] \<and> \<not> is_py_space (hd (str_int i)) \<and> \<not> is_py_space (last (str_int i))"
proof -
  have d: "\<And>m. \<not> is_py_space (last (str_nat m)) \<and> \<not> is_py_space (hd (str_nat m))"
    using str_nat_digits [OF hd_in_set [OF str_nat_ne]] str_nat_digits [OF last_in_set [OF str_nat_ne]]
    by (simp add: is_digit_not_space)
  show ?thesis using d by (simp add: str_int_def is_py_space_def)
qed

lemma parse_int_padded:
  assumes "list_all is_py_space u" "list_all is_py_space w"
  shows "parse_int (u @ str_int i @ w) = Inr i"
proof -
  have strip: "py_strip (u @ str_int i @ w) = str_int i"
    using str_int_ends by (simp add: py_strip_pad [OF assms])
  have nd: "hd (str_nat m) \<noteq> CHR ''-'' \<and> hd (str_nat m) \<noteq> CHR ''+''" for m
    using is_digit_not_punct [OF str_nat_digits [OF hd_in_set [OF str_nat_ne]]] by simp
  have "split_sign (str_int i) = (if i < 0 then -1 else 1, str_nat (nat \<bar>i\<bar>))"
  proof (cases "i < 0")
    case True
    then show ?thesis by (simp add: split_sign_def str_int_def)
  next
    case False
    obtain c r where cr: "str_nat (nat i) = c # r" by (cases "str_nat (nat i)") auto
    with nd [of "nat i"] have "c \<noteq> CHR ''-''" "c \<noteq> CHR ''+''" by auto
    with False cr show ?thesis by (simp add: split_sign_def str_int_def)
  qed
  then show ?thesis
    by (simp add: parse_int_def strip parse_digits_str_nat_all del: append_assoc)
qed

lemma parse_digits_chars:
  "parse_digits n b cs = Some m \<Longrightarrow> c \<in> set cs \<Longrightarrow> is_digit c \<or> c = CHR ''_''"
  by (induction n b cs rule: parse_digits.induct) (auto split: if_splits)

lemma split_sign_keeps:
  "c \<in> set t \<Longrightarrow> c \<noteq> CHR ''+'' \<Longrightarrow> c \<noteq> CHR ''-'' \<Longrightarrow> c \<in> set (snd (split_sign t))"
  by (cases t) (auto simp: split_sign_def)

lemma parse_int_rejects:
  assumes "c \<in> set (py_strip s)" "\<not> is_digit c" "c \<notin> {CHR ''_'', CHR ''+'', CHR ''-''}"
  shows "parse_int s = Inl (ValueError s)"
proof -
  obtain sign body where sb: "split_sign (py_strip s) = (sign, body)" by fastforce
  have "c \<in> set body" using split_sign_keeps [OF assms(1)] assms(3) sb by simp
  then have "parse_digits 0 False body = None"
    using parse_digits_chars assms(2,3) by fastforce
  then show ?thesis by (simp add: parse_int_def sb)
qed

lemma round_half_even_near: "\<bar>of_int (round_half_even q) - q\<bar> \<le> 1/2"
  unfolding round_half_even_def Let_def by (auto simp: abs_if) linarith+

lemma round_half_even_of_int [simp]: "round_half_even (of_int k) = k"
  by (simp add: round_half_even_def)

lemma binexp_up_le: "1 \<le> q \<Longrightarrow> 2 ^ binexp_up q \<le> q"
proof (induction q rule: binexp_up.induct)
  case (1 q)
  show ?case
  proof (cases "2 \<le> q")
    case True
    then have "2 ^ binexp_up (q / 2) \<le> q / 2" using "1.IH" by simp
    then show ?thesis using True by (simp add: binexp_up.simps [of q])
  next
    case False
    then show ?thesis by (simp add: binexp_up.simps [of q] "1.prems")
  qed
qed

lemma binexp_down_ge: "0 < q \<Longrightarrow> 1 \<le> q * 2 ^ binexp_down q"
proof (induction q rule: binexp_down.induct)
  case (1 q)
  show ?case
  proof (cases "q < 1")
    case True
    then have "1 \<le> (2 * q) * 2 ^ binexp_down (2 * q)" using "1.IH" "1.prems" by simp
    then show ?thesis using True "1.prems" by (simp add: binexp_down.simps [of q] mult.assoc mult.left_commute)
  next
    case False
    then show ?thesis by (simp add: binexp_down.simps [of q])
  qed
qed

lemma pow2_pos: "0 < pow2 e"
  by (simp add: pow2_def)

lemma pow2_binexp_le: "0 < q \<Longrightarrow> pow2 (binexp q) \<le> q"
proof (cases "1 \<le> q")
  case True
  then show ?thesis by (simp add: binexp_def pow2_def binexp_up_le)
next
  case False
  assume q: "0 < q"
  have "1 \<le> q * 2 ^ binexp_down q" by (rule binexp_down_ge [OF q])
  then have "1 / 2 ^ binexp_down q \<le> q" by (simp add: divide_le_eq mult.commute)
  moreover have "0 < binexp_down q" using False q by (simp add: binexp_down.simps [of q])
  ultimately show ?thesis using False by (simp add: binexp_def pow2_def)
qed

theorem to_double_error: "\<bar>to_double q - q\<bar> \<le> \<bar>q\<bar> / 2 ^ 53"
proof (cases "q = 0")
  case True
  then show ?thesis by (simp add: to_double_def)
next
  case False
  define u where "u = pow2 (binexp \<bar>q\<bar>) / 2 ^ 52"
  have u0: "0 < u" by (simp add: u_def pow2_pos)
  have ul: "u \<le> \<bar>q\<bar> / 2 ^ 52" using pow2_binexp_le [of "\<bar>q\<bar>"] False by (simp add: u_def divide_right_mono)
  have "to_double q = of_int (round_half_even (q / u)) * u" using False by (simp add: to_double_def u_def Let_def)
  then have "to_double q - q = (of_int (round_half_even (q / u)) - q / u) * u" using u0 by (simp add: algebra_simps)
  then have "\<bar>to_double q - q\<bar> = \<bar>of_int (round_half_even (q / u)) - q / u\<bar> * u" using u0 by (simp add: abs_mult)
  also have "\<dots> \<le> 1/2 * u" using round_half_even_near u0 by (intro mult_right_mono) auto
  also have "\<dots> \<le> \<bar>q\<bar> / 2 ^ 53" using ul by simp
  finally show ?thesis .
qed
lemma to_double_bounds:
  "0 \<le> q \<Longrightarrow> q - q / 2 ^ 53 \<le> to_double q \<and> to_double q \<le> q + q / 2 ^ 53"
proof -
  assume q: "0 \<le> q"
  have "\<bar>to_double q - q\<bar> \<le> q / 2 ^ 53" using to_double_error [of q] q by simp
  then have "to_double q - q \<le> q / 2 ^ 53" "q - to_double q \<le> q / 2 ^ 53"
    by (simp_all only: abs_le_iff) linarith+
  then show ?thesis by (intro conjI) linarith+
qed

end
