(* ===== verification/Frame.thy ===== *)
theory Frame
  imports Decimal
begin

text \<open>
  The table as \<open>pandas.read_csv\<close> hands it to the script (\<open>src/dashboard.py\<close>,
  line 7): a list of column labels and a list of rows of cells. A cell is a missing
  value (\<open>NaN\<close>), a number or a text. The order on cells puts missing values first,
  then numbers by value, then texts by code points, which is Python's order on every
  column \<open>read_csv\<close> produces (its columns are numeric or text, never both).
  Also here: the column-label normalisation of line 8 and column lookup by label.
\<close>

section \<open>Cells\<close>

datatype cell = NaN | Num rat | Str string

fun cell_le :: "cell \<Rightarrow> cell \<Rightarrow> bool" where
  "cell_le NaN _ = True"
| "cell_le (Num _) NaN = False"
| "cell_le (Num a) (Num b) = (a \<le> b)"
| "cell_le (Num _) (Str _) = True"
| "cell_le (Str _) NaN = False"
| "cell_le (Str _) (Num _) = False"
| "cell_le (Str a) (Str b) = (a \<le> b)"

instantiation cell :: linorder
begin

definition less_eq_cell :: "cell \<Rightarrow> cell \<Rightarrow> bool" where
  "less_eq_cell a b = cell_le a b"

definition less_cell :: "cell \<Rightarrow> cell \<Rightarrow> bool" where
  "less_cell a b = (cell_le a b \<and> \<not> cell_le b a)"

instance
proof
  fix x y z :: cell
  show "x < y \<longleftrightarrow> x \<le> y \<and> \<not> y \<le> x" by (simp add: less_cell_def less_eq_cell_def)
  show "x \<le> x" by (cases x) (simp_all add: less_eq_cell_def)
  show "x \<le> y \<Longrightarrow> y \<le> z \<Longrightarrow> x \<le> z"
    by (cases x; cases y; cases z) (auto simp: less_eq_cell_def)
  show "x \<le> y \<Longrightarrow> y \<le> x \<Longrightarrow> x = y"
    by (cases x; cases y) (auto simp: less_eq_cell_def)
  show "x \<le> y \<or> y \<le> x"
    by (cases x; cases y) (auto simp: less_eq_cell_def)
qed

end

text \<open>Python's truth of \<open>notna\<close>.\<close>

definition notna :: "cell \<Rightarrow> bool" where
  "notna c \<longleftrightarrow> c \<noteq> NaN"

section \<open>The table read from the CSV file\<close>

record raw_frame =
  header :: "string list"
  body :: "cell list list"

text \<open>\<open>read_csv\<close> pads a short line with missing values: a cell beyond the end of a
  row reads as \<open>NaN\<close>.\<close>

definition cell_at :: "cell list \<Rightarrow> nat \<Rightarrow> cell" where
  "cell_at r i = (if i < length r then r ! i else NaN)"

text \<open>The positions of the columns carrying a label, in order; pandas allows a label to
  occur more than once once the labels are rewritten.\<close>

definition positions :: "string list \<Rightarrow> string \<Rightarrow> nat list" where
  "positions cols name = filter (\<lambda>i. cols ! i = name) [0..<length cols]"

section \<open>Column labels (line 8)\<close>

text \<open>\<open>str.replace(a, b)\<close> for one-character \<open>a\<close> and \<open>b\<close>.\<close>

definition replace_char :: "char \<Rightarrow> char \<Rightarrow> string \<Rightarrow> string" where
  "replace_char a b s = map (\<lambda>x. if x = a then b else x) s"

text \<open>\<open>df.columns.str.strip().str.replace(' ', '_').str.replace('-', '_')\<close>.\<close>

definition normalize_column :: "string \<Rightarrow> string" where
  "normalize_column c =
     replace_char (CHR ''-'') (CHR ''_'') (replace_char (CHR '' '') (CHR ''_'') (py_strip c))"

text \<open>The label rewriting maps characters one for one; \<open>label_char\<close> is that map.\<close>

definition label_char :: "char \<Rightarrow> char" where
  "label_char x = (if x = CHR ''-'' then CHR ''_'' else if x = CHR '' '' then CHR ''_'' else x)"

section \<open>Lemmas\<close>

lemma normalize_column_map: "normalize_column c = map label_char (py_strip c)"
  by (auto simp: normalize_column_def replace_char_def label_char_def)

text \<open>C27: A normalised column label (line 8) contains no space and no hyphen.\<close>

theorem normalize_column_chars:
  "CHR '' '' \<notin> set (normalize_column c) \<and> CHR ''-'' \<notin> set (normalize_column c)"
  by (auto simp: normalize_column_map label_char_def)

lemma positions_iff: "i \<in> set (positions cols name) \<longleftrightarrow> i < length cols \<and> cols ! i = name"
  by (auto simp: positions_def)

lemma positions_distinct: "distinct (positions cols name)"
  by (simp add: positions_def)

lemma positions_Nil: "positions cols name = [] \<longleftrightarrow> name \<notin> set cols"
  by (auto simp: positions_def filter_empty_conv in_set_conv_nth)

lemma cell_at_Cons_0 [simp]: "cell_at (c # r) 0 = c"
  by (simp add: cell_at_def)

end
