(* ===== verification/Load.thy ===== *)
theory Load
  imports Frame
begin

text \<open>
  Start-up of the dashboard (\<open>src/dashboard.py\<close>, lines 7 to 15 and 45 to 46): the
  labels are normalised, rows without a year are dropped, the Year column is converted
  to integers, the country and company options are the sorted distinct values of their
  columns, and the slider runs from the least to the greatest year with a mark every
  five years. Every exception a start-up can raise is a branch: a missing column
  (\<open>KeyError\<close>), a year text that is not an integer or a table with no year at all
  (\<open>ValueError\<close>), a year text beyond the 64-bit range (\<open>OverflowError\<close>), a label that occurs twice after normalisation (\<open>TypeError\<close> or
  \<open>AttributeError\<close>, where pandas hands back a frame instead of a column), and
  options that mix numbers and texts (\<open>TypeError\<close> from \<open>sorted\<close>).
\<close>

section \<open>The started dashboard\<close>

text \<open>What start-up leaves behind: the table \<open>df\<close> with its labels, the positions of the
  three columns it has checked, the dropdown options and the slider bounds.\<close>

record app =
  columns :: "string list"
  table :: "cell list list"
  year_col :: nat
  country_col :: nat
  company_col :: nat
  country_options :: "cell list"
  company_options :: "cell list"
  min_year :: int
  max_year :: int

section \<open>Lines 9 and 10: the Year column\<close>

text \<open>\<open>df.dropna(subset=['Year'])\<close>: a row goes when a Year column holds no value.\<close>

definition dropna_year :: "nat list \<Rightarrow> cell list list \<Rightarrow> cell list list" where
  "dropna_year ys rows = filter (\<lambda>r. list_all (\<lambda>i. cell_at r i \<noteq> NaN) ys) rows"

text \<open>\<open>int(x)\<close> of one cell, stored as a 64-bit integer: a number is truncated toward
  zero; a text is parsed by \<open>int()\<close>, and numpy raises \<open>OverflowError\<close> when the
  integer does not fit in 64 bits. (A float beyond that range is cast without a check by
  numpy; years never come near it, and the model keeps the truncated value.)\<close>

definition trunc_rat :: "rat \<Rightarrow> int" where
  "trunc_rat q = (if 0 \<le> q then \<lfloor>q\<rfloor> else \<lceil>q\<rceil>)"

fun cell_to_int :: "cell \<Rightarrow> int py" where
  "cell_to_int NaN = Inl (ValueError ''cannot convert float NaN to integer'')"
| "cell_to_int (Num q) = Inr (trunc_rat q)"
| "cell_to_int (Str s) =
     (case parse_int s of
        Inl e \<Rightarrow> Inl e
      | Inr k \<Rightarrow> if - (2 ^ 63) \<le> k \<and> k < 2 ^ 63 then Inr k
                 else Inl (OverflowError ''Python int too large to convert to C long''))"

text \<open>\<open>df['Year'] = df['Year'].astype(int)\<close> for one Year column, row by row.\<close>

definition astype_int_col :: "nat \<Rightarrow> cell list list \<Rightarrow> cell list list py" where
  "astype_int_col i rows =
     map_py (\<lambda>r. case cell_to_int (cell_at r i) of
                   Inl e \<Rightarrow> Inl e
                 | Inr k \<Rightarrow> Inr (r[i := Num (of_int k)])) rows"

fun astype_int :: "nat list \<Rightarrow> cell list list \<Rightarrow> cell list list py" where
  "astype_int [] rows = Inr rows"
| "astype_int (i # is) rows =
     (case astype_int_col i rows of Inl e \<Rightarrow> Inl e | Inr rows' \<Rightarrow> astype_int is rows')"

section \<open>Lines 13 and 14: the dropdown options\<close>

definition is_num :: "cell \<Rightarrow> bool" where
  "is_num c \<longleftrightarrow> (case c of Num _ \<Rightarrow> True | _ \<Rightarrow> False)"

definition is_str :: "cell \<Rightarrow> bool" where
  "is_str c \<longleftrightarrow> (case c of Str _ \<Rightarrow> True | _ \<Rightarrow> False)"

text \<open>\<open>sorted(col.dropna().unique())\<close>: \<open>sorted\<close> raises as soon as it compares a
  text with a number, which it must when both occur.\<close>

definition sorted_unique :: "cell list \<Rightarrow> cell list py" where
  "sorted_unique cs =
     (let vs = remdups (filter notna cs) in
      if list_ex is_num vs \<and> list_ex is_str vs
      then Inl (TypeError ''<'') else Inr (sort vs))"

text \<open>\<open>df[name]\<close> followed by \<open>.dropna().unique()\<close>: a missing label raises
  \<open>KeyError\<close>; a label held by two columns selects a frame, which has no \<open>unique\<close>.\<close>

definition column_options :: "string list \<Rightarrow> cell list list \<Rightarrow> string \<Rightarrow> (nat \<times> cell list) py" where
  "column_options cols rows name =
     (case positions cols name of
        [] \<Rightarrow> Inl (KeyError (KLabel name))
      | [i] \<Rightarrow> (case sorted_unique (map (\<lambda>r. cell_at r i) rows) of
                 Inl e \<Rightarrow> Inl e
               | Inr opts \<Rightarrow> Inr (i, opts))
      | _ \<Rightarrow> Inl (AttributeError ''unique''))"

section \<open>Line 15: the slider bounds\<close>

text \<open>The integer a converted Year cell holds.\<close>

definition year_value :: "cell \<Rightarrow> int" where
  "year_value c = (case c of Num q \<Rightarrow> \<lfloor>q\<rfloor> | _ \<Rightarrow> 0)"

text \<open>\<open>int(df['Year'].min()), int(df['Year'].max())\<close>: two Year columns give a
  series, which \<open>int\<close> refuses; an empty column gives NaN, which \<open>int\<close> refuses too.\<close>

definition year_bounds :: "nat list \<Rightarrow> cell list list \<Rightarrow> (int \<times> int) py" where
  "year_bounds ys rows =
     (case ys of
        [i] \<Rightarrow> (case map (\<lambda>r. year_value (cell_at r i)) rows of
                 [] \<Rightarrow> Inl (ValueError ''cannot convert float NaN to integer'')
               | y # yrs \<Rightarrow> Inr (foldl min y yrs, foldl max y yrs))
      | _ \<Rightarrow> Inl (TypeError ''cannot convert the series to int''))"

section \<open>Lines 7 to 15 together\<close>

definition startup :: "raw_frame \<Rightarrow> app py" where
  "startup raw =
     (let cols = map normalize_column (header raw);
          ys = positions cols ''Year''
      in if ys = [] then Inl (KeyError (KLabels [''Year''])) else
      (case astype_int ys (dropna_year ys (body raw)) of
         Inl e \<Rightarrow> Inl e
       | Inr rows \<Rightarrow>
      (case column_options cols rows ''Country'' of
         Inl e \<Rightarrow> Inl e
       | Inr (ci, countries) \<Rightarrow>
      (case column_options cols rows ''Company_Name'' of
         Inl e \<Rightarrow> Inl e
       | Inr (mi, companies) \<Rightarrow>
      (case year_bounds ys rows of
         Inl e \<Rightarrow> Inl e
       | Inr (lo, hi) \<Rightarrow>
         Inr \<lparr>columns = cols, table = rows, year_col = hd ys, country_col = ci,
              company_col = mi, country_options = countries, company_options = companies,
              min_year = lo, max_year = hi\<rparr>)))))"

section \<open>Line 46: the slider marks\<close>

text \<open>Python's \<open>range(start, stop, step)\<close> for a positive step.\<close>

function py_range :: "int \<Rightarrow> int \<Rightarrow> int \<Rightarrow> int list" where
  "py_range start stop step =
     (if 0 < step \<and> start < stop then start # py_range (start + step) stop step else [])"
  by pat_completeness auto
termination
  by (relation "measure (\<lambda>(start, stop, step). nat (stop - start))") auto

declare py_range.simps [simp del]

text \<open>\<open>{y: str(y) for y in range(min_year, max_year+1, 5)}\<close>, in insertion order.\<close>

definition slider_marks :: "app \<Rightarrow> (int \<times> string) list" where
  "slider_marks a = map (\<lambda>y. (y, str_int y)) (py_range (min_year a) (max_year a + 1) 5)"

section \<open>The start-up invariant\<close>

text \<open>What a started dashboard guarantees its callback: the three columns it uses are
  held by one column each, every row carries an integer year inside the slider's range,
  the table is not empty, and the options are the sorted distinct values present.\<close>

definition app_ok :: "app \<Rightarrow> bool" where
  "app_ok a \<longleftrightarrow>
     positions (columns a) ''Year'' = [year_col a] \<and>
     positions (columns a) ''Country'' = [country_col a] \<and>
     positions (columns a) ''Company_Name'' = [company_col a] \<and>
     table a \<noteq> [] \<and>
     list_all (\<lambda>r. let k = year_value (cell_at r (year_col a)) in
                   cell_at r (year_col a) = Num (of_int k) \<and> min_year a \<le> k \<and> k \<le> max_year a)
       (table a) \<and>
     country_options a = sort (remdups (filter notna (map (\<lambda>r. cell_at r (country_col a)) (table a)))) \<and>
     company_options a = sort (remdups (filter notna (map (\<lambda>r. cell_at r (company_col a)) (table a))))"

section \<open>Lemmas\<close>

lemma foldl_min_bound: "foldl min y ys \<le> y \<and> (\<forall>x\<in>set ys. foldl min y ys \<le> (x::'a::linorder))"
proof (induction ys arbitrary: y)
  case Nil
  show ?case by simp
next
  case (Cons z zs)
  from Cons.IH [of "min y z"] show ?case by (auto intro: order_trans)
qed

lemma foldl_max_bound: "y \<le> foldl max y ys \<and> (\<forall>x\<in>set ys. (x::'a::linorder) \<le> foldl max y ys)"
proof (induction ys arbitrary: y)
  case Nil
  show ?case by simp
next
  case (Cons z zs)
  from Cons.IH [of "max y z"] show ?case by (auto intro: order_trans)
qed

lemma foldl_min_le: "x \<in> set (y # ys) \<Longrightarrow> foldl min y ys \<le> (x::'a::linorder)"
  using foldl_min_bound by fastforce

lemma foldl_max_ge: "x \<in> set (y # ys) \<Longrightarrow> (x::'a::linorder) \<le> foldl max y ys"
  using foldl_max_bound by fastforce

lemma foldl_min_in: "foldl min y ys \<in> set (y # (ys::'a::linorder list))"
  by (induction ys arbitrary: y) (auto simp: min_def)

lemma foldl_max_in: "foldl max y ys \<in> set (y # (ys::'a::linorder list))"
  by (induction ys arbitrary: y) (auto simp: max_def)

lemma astype_int_col_Inr:
  assumes "astype_int_col i rows = Inr rows'"
  shows "length rows' = length rows \<and>
    (\<forall>n < length rows. \<exists>k. cell_to_int (cell_at (rows ! n) i) = Inr k \<and> rows' ! n = (rows ! n)[i := Num (of_int k)])"
proof -
  have l: "length rows' = length rows" and
    each: "\<And>n. n < length rows \<Longrightarrow> (case cell_to_int (cell_at (rows ! n) i) of Inl e \<Rightarrow> Inl e
              | Inr k \<Rightarrow> Inr ((rows ! n)[i := Num (of_int k)])) = Inr (rows' ! n)"
    using assms unfolding astype_int_col_def map_py_Inr by auto
  show ?thesis
  proof (intro conjI allI impI l)
    fix n assume n: "n < length rows"
    show "\<exists>k. cell_to_int (cell_at (rows ! n) i) = Inr k \<and> rows' ! n = (rows ! n)[i := Num (of_int k)]"
      using each [OF n] by (cases "cell_to_int (cell_at (rows ! n) i)") auto
  qed
qed

lemma column_options_Inr:
  assumes "column_options cols rows name = Inr (i, opts)"
  shows "positions cols name = [i] \<and> opts = sort (remdups (filter notna (map (\<lambda>r. cell_at r i) rows)))"
  using assms
  by (auto simp: column_options_def sorted_unique_def Let_def split: list.splits sum.splits if_splits)

lemma year_bounds_Inr:
  assumes "year_bounds ys rows = Inr (lo, hi)"
  shows "\<exists>i. ys = [i] \<and> rows \<noteq> [] \<and>
    (\<forall>r\<in>set rows. lo \<le> year_value (cell_at r i) \<and> year_value (cell_at r i) \<le> hi) \<and>
    lo \<in> year_value ` (\<lambda>r. cell_at r i) ` set rows \<and> hi \<in> year_value ` (\<lambda>r. cell_at r i) ` set rows"
proof -
  obtain i where ys: "ys = [i]" using assms
    by (auto simp: year_bounds_def split: list.splits)
  let ?yrs = "map (\<lambda>r. year_value (cell_at r i)) rows"
  obtain y yrs where yy: "?yrs = y # yrs" and lo: "lo = foldl min y yrs" and hi: "hi = foldl max y yrs"
    using assms ys by (auto simp: year_bounds_def split: list.splits)
  have "set ?yrs = set (y # yrs)" by (simp only: yy)
  then have "\<forall>r\<in>set rows. lo \<le> year_value (cell_at r i) \<and> year_value (cell_at r i) \<le> hi"
    using foldl_min_le foldl_max_ge lo hi by (metis (no_types, lifting) image_eqI list.set_map)
  moreover have "lo \<in> set ?yrs" "hi \<in> set ?yrs"
    using foldl_min_in foldl_max_in lo hi yy by metis+
  moreover have "rows \<noteq> []" using yy by auto
  ultimately show ?thesis using ys by auto
qed

lemma startup_Inr:
  assumes "startup raw = Inr a"
  shows "positions (columns a) ''Year'' = [year_col a] \<and>
    columns a = map normalize_column (header raw) \<and>
    astype_int_col (year_col a) (dropna_year [year_col a] (body raw)) = Inr (table a) \<and>
    column_options (columns a) (table a) ''Country'' = Inr (country_col a, country_options a) \<and>
    column_options (columns a) (table a) ''Company_Name'' = Inr (company_col a, company_options a) \<and>
    year_bounds [year_col a] (table a) = Inr (min_year a, max_year a)"
proof -
  let ?cols = "map normalize_column (header raw)"
  let ?ys = "positions ?cols ''Year''"
  have ne: "?ys \<noteq> []" using assms by (auto simp: startup_def Let_def)
  then obtain rows where rows: "astype_int ?ys (dropna_year ?ys (body raw)) = Inr rows"
    using assms by (auto simp: startup_def Let_def split: sum.splits)
  obtain ci cs where c: "column_options ?cols rows ''Country'' = Inr (ci, cs)"
    using assms ne rows by (auto simp: startup_def Let_def split: sum.splits)
  obtain mi ms where m: "column_options ?cols rows ''Company_Name'' = Inr (mi, ms)"
    using assms ne rows c by (auto simp: startup_def Let_def split: sum.splits)
  obtain lo hi where b: "year_bounds ?ys rows = Inr (lo, hi)"
    using assms ne rows c m by (auto simp: startup_def Let_def split: sum.splits)
  then obtain yi where yi: "?ys = [yi]" using year_bounds_Inr by blast
  have a: "a = \<lparr>columns = ?cols, table = rows, year_col = yi, country_col = ci,
              company_col = mi, country_options = cs, company_options = ms,
              min_year = lo, max_year = hi\<rparr>"
    using assms ne rows c m b yi by (simp add: startup_def Let_def)
  show ?thesis using a yi rows c m b by (auto split: sum.splits)
qed
lemma year_value_of_int [simp]: "year_value (Num (of_int k)) = k"
  by (simp add: year_value_def)

lemma astype_int_col_years:
  assumes "astype_int_col i (dropna_year [i] rows) = Inr rows'"
  shows "\<forall>r\<in>set rows'. \<exists>k. cell_at r i = Num (of_int k)"
proof
  fix r assume "r \<in> set rows'"
  then obtain n where n: "n < length rows'" and r: "r = rows' ! n" by (auto simp: in_set_conv_nth)
  let ?rs = "dropna_year [i] rows"
  from astype_int_col_Inr [OF assms] n obtain k where
    k: "r = (?rs ! n)[i := Num (of_int k)]" and l: "n < length ?rs" using r by auto
  have "?rs ! n \<in> set ?rs" using l by simp
  then have "cell_at (?rs ! n) i \<noteq> NaN" by (simp add: dropna_year_def)
  then have "i < length (?rs ! n)" by (auto simp: cell_at_def split: if_splits)
  then show "\<exists>k. cell_at r i = Num (of_int k)" using k by (simp add: cell_at_def)
qed

lemma app_ok_rows:
  "app_ok a \<Longrightarrow> r \<in> set (table a) \<Longrightarrow>
     cell_at r (year_col a) = Num (of_int (year_value (cell_at r (year_col a)))) \<and>
     min_year a \<le> year_value (cell_at r (year_col a)) \<and> year_value (cell_at r (year_col a)) \<le> max_year a"
  unfolding app_ok_def list_all_iff by (simp add: Let_def)

lemma cell_to_int_Inl:
  "cell_to_int c = Inl e \<Longrightarrow> (\<exists>m. e = ValueError m) \<or> (\<exists>m. e = OverflowError m)"
  by (cases c) (auto simp: parse_int_def split: prod.splits option.splits sum.splits if_splits)

lemma astype_int_col_Inl:
  "astype_int_col i rows = Inl e \<Longrightarrow> \<exists>r\<in>set rows. cell_to_int (cell_at r i) = Inl e"
proof -
  assume "astype_int_col i rows = Inl e"
  then obtain r where r: "r \<in> set rows" and h: "(case cell_to_int (cell_at r i) of Inl e \<Rightarrow> Inl e
      | Inr k \<Rightarrow> Inr (r[i := Num (of_int k)])) = Inl e"
    unfolding astype_int_col_def by (blast dest: map_py_Inl_elem)
  from h have "cell_to_int (cell_at r i) = Inl e" by (cases "cell_to_int (cell_at r i)") simp_all
  with r show ?thesis ..
qed

lemma astype_int_col_fails:
  "r \<in> set rows \<Longrightarrow> cell_to_int (cell_at r i) = Inl e' \<Longrightarrow> \<exists>e. astype_int_col i rows = Inl e"
  unfolding astype_int_col_def map_py_Inl by (intro bexI [where x = r]) simp_all

lemma dropna_year_keeps: "r \<in> set rows \<Longrightarrow> cell_at r i = Str s \<Longrightarrow> r \<in> set (dropna_year [i] rows)"
  by (simp add: dropna_year_def)

text \<open>C1: When the start-up code (lines 7 to 15) succeeds, the dashboard it builds satisfies the start-up invariant: Year, Country and Company_Name are each held by one column, every row carries an integer year between the slider bounds, the table is not empty, and the dropdown options are the sorted distinct values present.\<close>

theorem startup_app_ok: "startup raw = Inr a \<Longrightarrow> app_ok a"
proof -
  assume s: "startup raw = Inr a"
  define yi where "yi = year_col a"
  have y: "positions (columns a) ''Year'' = [yi]" "year_col a = yi" and
    rows: "astype_int_col yi (dropna_year [yi] (body raw)) = Inr (table a)" and
    c: "column_options (columns a) (table a) ''Country'' = Inr (country_col a, country_options a)" and
    m: "column_options (columns a) (table a) ''Company_Name'' = Inr (company_col a, company_options a)" and
    b: "year_bounds [yi] (table a) = Inr (min_year a, max_year a)"
    using startup_Inr [OF s] unfolding yi_def by (insert startup_Inr [OF s], simp_all)
  have yrs: "\<forall>r\<in>set (table a). \<exists>k. cell_at r yi = Num (of_int k)"
    by (rule astype_int_col_years [OF rows])
  from year_bounds_Inr [OF b] have ne: "table a \<noteq> []" and
    bnd: "\<forall>r\<in>set (table a). min_year a \<le> year_value (cell_at r yi) \<and> year_value (cell_at r yi) \<le> max_year a"
    by auto
  have "list_all (\<lambda>r. let k = year_value (cell_at r (year_col a)) in
                   cell_at r (year_col a) = Num (of_int k) \<and> min_year a \<le> k \<and> k \<le> max_year a)
          (table a)"
    unfolding list_all_iff
  proof
    fix r assume r: "r \<in> set (table a)"
    then obtain k where k: "cell_at r yi = Num (of_int k)" using yrs by blast
    have "min_year a \<le> year_value (cell_at r yi) \<and> year_value (cell_at r yi) \<le> max_year a"
      using bnd r by blast
    then have "min_year a \<le> k \<and> k \<le> max_year a" by (simp only: k year_value_of_int)
    then show "let k = year_value (cell_at r (year_col a)) in
                 cell_at r (year_col a) = Num (of_int k) \<and> min_year a \<le> k \<and> k \<le> max_year a"
      using k y(2) by simp
  qed
  moreover have "positions (columns a) ''Country'' = [country_col a]"
    "country_options a = sort (remdups (filter notna (map (\<lambda>r. cell_at r (country_col a)) (table a))))"
    using column_options_Inr [OF c] by auto
  moreover have "positions (columns a) ''Company_Name'' = [company_col a]"
    "company_options a = sort (remdups (filter notna (map (\<lambda>r. cell_at r (company_col a)) (table a))))"
    using column_options_Inr [OF m] by auto
  ultimately show ?thesis
    using y ne unfolding app_ok_def by simp
qed

lemma py_range_set:
  "0 < st \<Longrightarrow> x \<in> set (py_range s e st) \<longleftrightarrow> s \<le> x \<and> x < e \<and> st dvd (x - s)"
proof (induction s e st rule: py_range.induct)
  case (1 s e st)
  show ?case
  proof (cases "s < e")
    case False
    then show ?thesis using "1.prems" by (simp add: py_range.simps [of s e st])
  next
    case True
    have IH: "x \<in> set (py_range (s + st) e st) \<longleftrightarrow> s + st \<le> x \<and> x < e \<and> st dvd (x - (s + st))"
      using "1.IH" True "1.prems" by blast
    have "s + st \<le> x \<and> st dvd (x - (s + st)) \<longleftrightarrow> s < x \<and> st dvd (x - s)"
    proof
      assume h: "s < x \<and> st dvd (x - s)"
      then have "st \<le> x - s" using zdvd_imp_le [of st "x - s"] by simp
      moreover have "st dvd (x - s - st)" using h dvd_diff [of st "x - s" st] by simp
      ultimately show "s + st \<le> x \<and> st dvd (x - (s + st))" by (simp add: diff_diff_eq)
    next
      assume h: "s + st \<le> x \<and> st dvd (x - (s + st))"
      have "x - s = x - (s + st) + st" by simp
      then have "st dvd (x - s)" using h dvd_add [of st "x - (s + st)" st] by simp
      then show "s < x \<and> st dvd (x - s)" using h "1.prems" by simp
    qed
    moreover have "py_range s e st = s # py_range (s + st) e st"
      using True "1.prems" by (simp add: py_range.simps [of s e st])
    ultimately show ?thesis using True IH by auto
  qed
qed

text \<open>C26: The slider marks (line 46) are exactly the years from min_year to max_year in steps of five, each labelled with its decimal text.\<close>

theorem slider_marks_spec:
  "(y, l) \<in> set (slider_marks a) \<longleftrightarrow>
     min_year a \<le> y \<and> y \<le> max_year a \<and> 5 dvd (y - min_year a) \<and> l = str_int y"
  by (auto simp: slider_marks_def py_range_set)

text \<open>C28: When no column label normalises to Year, the start-up code raises KeyError(['Year']) at line 9.\<close>

theorem startup_no_year:
  "''Year'' \<notin> set (map normalize_column (header raw)) \<Longrightarrow> startup raw = Inl (KeyError (KLabels [''Year'']))"
  by (simp add: startup_def positions_Nil)

text \<open>C15: After a successful start-up the column labels are the normalised headers, and the table holds, in order, exactly the rows of the file with a Year value, each with its year replaced by the integer int() gives.\<close>

theorem startup_rows:
  assumes "startup raw = Inr a"
  defines "kept \<equiv> filter (\<lambda>r. cell_at r (year_col a) \<noteq> NaN) (body raw)"
  shows "columns a = map normalize_column (header raw) \<and> length (table a) = length kept \<and>
    (\<forall>n < length kept. \<exists>k. cell_to_int (cell_at (kept ! n) (year_col a)) = Inr k \<and>
                           table a ! n = (kept ! n)[year_col a := Num (of_int k)])"
proof -
  have s: "columns a = map normalize_column (header raw)"
    "astype_int_col (year_col a) (dropna_year [year_col a] (body raw)) = Inr (table a)"
    using startup_Inr [OF assms(1)] by simp_all
  have "dropna_year [year_col a] (body raw) = kept" by (simp add: dropna_year_def kept_def)
  then show ?thesis using s astype_int_col_Inr [OF s(2)] by simp
qed


text \<open>C16: When the Year label is held by one column and a row of the file holds, in that column, a text that int() rejects or whose integer does not fit in 64 bits, start-up (line 10) raises ValueError or OverflowError.\<close>

theorem startup_bad_year:
  assumes "positions (map normalize_column (header raw)) ''Year'' = [i]"
    and "r \<in> set (body raw)" "cell_at r i = Str s"
    and "\<not> (\<exists>k. parse_int s = Inr k \<and> - (2 ^ 63) \<le> k \<and> k < 2 ^ 63)"
  shows "\<exists>m. startup raw = Inl (ValueError m) \<or> startup raw = Inl (OverflowError m)"
proof -
  have "\<exists>e. cell_to_int (cell_at r i) = Inl e" using assms(3,4) by (auto split: sum.splits)
  then obtain e where e: "astype_int_col i (dropna_year [i] (body raw)) = Inl e"
    using astype_int_col_fails [OF dropna_year_keeps [OF assms(2,3)]] by blast
  then obtain r' where "cell_to_int (cell_at r' i) = Inl e" using astype_int_col_Inl by blast
  then have "(\<exists>m. e = ValueError m) \<or> (\<exists>m. e = OverflowError m)" by (rule cell_to_int_Inl)
  moreover have "startup raw = Inl e" using assms(1) e by (simp add: startup_def)
  ultimately show ?thesis by blast
qed

text \<open>C17: A Year text holding the decimal digits of a 64-bit integer k, with whitespace around them allowed, is read as k: after a successful start-up the row is in the table with k in its Year cell.\<close>

theorem startup_year_text:
  assumes "startup raw = Inr a" "r \<in> set (body raw)"
    and "cell_at r (year_col a) = Str (u @ str_int k @ w)" "list_all is_py_space u" "list_all is_py_space w"
    and "- (2 ^ 63) \<le> k" "k < 2 ^ 63"
  shows "r[year_col a := Num (of_int k)] \<in> set (table a)"
proof -
  let ?rs = "dropna_year [year_col a] (body raw)"
  have c: "cell_to_int (cell_at r (year_col a)) = Inr k"
    using assms(3-7) by (simp add: parse_int_padded)
  have rows: "astype_int_col (year_col a) ?rs = Inr (table a)"
    using startup_Inr [OF assms(1)] by simp
  obtain n where n: "n < length ?rs" "?rs ! n = r"
    using dropna_year_keeps [OF assms(2,3)] by (auto simp: in_set_conv_nth)
  then show ?thesis using astype_int_col_Inr [OF rows] c by (metis nth_mem sum.inject(2))
qed

end
