(* ===== verification/Filtering.thy ===== *)
theory Filtering
  imports Load
begin

text \<open>
  \<open>filter_df\<close> (\<open>src/dashboard.py\<close>, lines 60 to 66): keep the rows whose year lies in
  the slider's closed range, then, when a country is selected, the rows of a selected
  country, then, when a company is selected, the rows of a selected company. A dropdown
  that holds nothing (\<open>None\<close> before the first choice, \<open>[]\<close> after clearing it) is
  falsy in Python and selects everything. The result is a new list of the table's rows;
  the table itself is never changed.
\<close>

section \<open>Definitions\<close>

text \<open>\<open>(df['Year'] >= lo) & (df['Year'] <= hi)\<close> on one cell. After line 10 the Year
  column holds integers only (\<open>app_ok\<close>); a comparison with a missing value is false.\<close>

definition year_in_range :: "cell \<Rightarrow> int \<Rightarrow> int \<Rightarrow> bool" where
  "year_in_range c lo hi \<longleftrightarrow> (case c of Num q \<Rightarrow> of_int lo \<le> q \<and> q \<le> of_int hi | _ \<Rightarrow> False)"

text \<open>\<open>if selected: dff = dff[dff[col].isin(selected)]\<close>.\<close>

definition isin_filter :: "nat \<Rightarrow> cell list option \<Rightarrow> cell list list \<Rightarrow> cell list list" where
  "isin_filter i sel rows =
     (case sel of
        None \<Rightarrow> rows
      | Some xs \<Rightarrow> if xs = [] then rows else filter (\<lambda>r. cell_at r i \<in> set xs) rows)"

definition filter_df :: "app \<Rightarrow> cell list option \<Rightarrow> cell list option \<Rightarrow> int \<times> int \<Rightarrow> cell list list" where
  "filter_df a selected_countries selected_companies year_range =
     (let dff = filter (\<lambda>r. year_in_range (cell_at r (year_col a)) (fst year_range) (snd year_range))
                  (table a);
          dff = isin_filter (country_col a) selected_countries dff
      in isin_filter (company_col a) selected_companies dff)"

text \<open>The row predicate the three filters amount to (the specification of \<open>filter_df\<close>).\<close>

definition selects :: "nat \<Rightarrow> cell list option \<Rightarrow> cell list \<Rightarrow> bool" where
  "selects i sel r \<longleftrightarrow> (case sel of None \<Rightarrow> True | Some xs \<Rightarrow> xs = [] \<or> cell_at r i \<in> set xs)"

definition keeps :: "app \<Rightarrow> cell list option \<Rightarrow> cell list option \<Rightarrow> int \<times> int \<Rightarrow> cell list \<Rightarrow> bool" where
  "keeps a sc sm yr r \<longleftrightarrow>
     year_in_range (cell_at r (year_col a)) (fst yr) (snd yr) \<and>
     selects (country_col a) sc r \<and> selects (company_col a) sm r"

section \<open>Lemmas\<close>

lemma isin_filter_eq: "isin_filter i sel rows = filter (selects i sel) rows"
  by (cases sel) (auto simp: isin_filter_def selects_def intro!: filter_cong)

theorem filter_df_spec: "filter_df a sc sm yr = filter (keeps a sc sm yr) (table a)"
  by (auto simp: filter_df_def isin_filter_eq keeps_def intro!: filter_cong)

lemma keeps_mono:
  assumes "lo' \<le> lo" "hi \<le> hi'"
    and "\<And>r. selects (country_col a) sc r \<Longrightarrow> selects (country_col a) sc' r"
    and "\<And>r. selects (company_col a) sm r \<Longrightarrow> selects (company_col a) sm' r"
  shows "keeps a sc sm (lo, hi) r \<Longrightarrow> keeps a sc' sm' (lo', hi') r"
  using assms by (auto simp: keeps_def year_in_range_def split: cell.splits)

lemma subseq_filter_mono: "(\<And>x. P x \<Longrightarrow> Q x) \<Longrightarrow> subseq (filter P xs) (filter Q xs)"
  by (induction xs) (auto intro: subseq_Cons2)

text \<open>C9: Widening the year range or the selections can only add rows to the filtered table.\<close>

theorem filter_df_mono:
  assumes "lo' \<le> lo" "hi \<le> hi'"
    and "\<And>r. selects (country_col a) sc r \<Longrightarrow> selects (country_col a) sc' r"
    and "\<And>r. selects (company_col a) sm r \<Longrightarrow> selects (company_col a) sm' r"
  shows "subseq (filter_df a sc sm (lo, hi)) (filter_df a sc' sm' (lo', hi'))"
  unfolding filter_df_spec by (rule subseq_filter_mono) (rule keeps_mono [OF assms])

text \<open>C20: A dropdown holding no value (None) and a cleared dropdown (the empty list) filter alike.\<close>

theorem filter_df_None_Nil: "filter_df a None sm yr = filter_df a (Some []) sm yr \<and>
    filter_df a sc None yr = filter_df a sc (Some []) yr"
  by (auto simp: filter_df_spec keeps_def selects_def intro!: filter_cong)

lemma year_in_range_int [simp]: "year_in_range (Num (of_int k)) lo hi \<longleftrightarrow> lo \<le> k \<and> k \<le> hi"
  by (simp add: year_in_range_def)

theorem filter_df_initial: "app_ok a \<Longrightarrow> filter_df a None None (min_year a, max_year a) = table a"
  unfolding filter_df_spec filter_id_conv
proof
  fix r assume "app_ok a" "r \<in> set (table a)"
  define k where "k = year_value (cell_at r (year_col a))"
  have "cell_at r (year_col a) = Num (of_int k)" "min_year a \<le> k" "k \<le> max_year a"
    using app_ok_rows [OF \<open>app_ok a\<close> \<open>r \<in> set (table a)\<close>] unfolding k_def by simp_all
  then show "keeps a None None (min_year a, max_year a) r" by (simp add: keeps_def selects_def)
qed

text \<open>C6: Under the start-up invariant, a row is kept by filter_df (lines 60 to 66) exactly when it is a row of the table whose year lies in the slider range (both ends included) and whose country and company are selected (an empty or absent selection selects all).\<close>

theorem filter_df_rows:
  assumes "app_ok a"
  shows "r \<in> set (filter_df a sc sm (lo, hi)) \<longleftrightarrow>
           r \<in> set (table a) \<and> lo \<le> year_value (cell_at r (year_col a)) \<and>
           year_value (cell_at r (year_col a)) \<le> hi \<and>
           selects (country_col a) sc r \<and> selects (company_col a) sm r"
proof (cases "r \<in> set (table a)")
  case True
  define k where "k = year_value (cell_at r (year_col a))"
  have "cell_at r (year_col a) = Num (of_int k)"
    using app_ok_rows [OF assms True] unfolding k_def by simp
  then show ?thesis using True by (simp add: filter_df_spec keeps_def k_def [symmetric])
next
  case False
  then show ?thesis by (simp add: filter_df_spec)
qed

end
