(* ===== verification/Aggregate.thy ===== *)
theory Aggregate
  imports Filtering
begin

text \<open>
  The numbers the callback \<open>update\<close> derives from the filtered rows
  (\<open>src/dashboard.py\<close>, lines 82 to 85, 100, 105 and 111): the three counting KPIs and
  the success-rate text, launches per year, launches per country in descending order,
  and launches per year and mission outcome. pandas' \<open>groupby(...).size()\<close> is the
  count of each distinct key in ascending key order, missing keys dropped;
  \<open>value_counts()\<close> is the count of each distinct value, largest first, equal counts in
  order of first appearance, missing values dropped.
\<close>

section \<open>Column lookup inside the callback\<close>

text \<open>\<open>'name' in dff.columns\<close> together with \<open>dff['name']\<close>: absent, one column, or a
  label held by several columns (where pandas returns a frame instead of a column).\<close>

datatype col_lookup = Absent | Unique nat | Duplicated

definition lookup_col :: "string list \<Rightarrow> string \<Rightarrow> col_lookup" where
  "lookup_col cols name = (case positions cols name of [] \<Rightarrow> Absent | [i] \<Rightarrow> Unique i | _ \<Rightarrow> Duplicated)"

section \<open>Lines 82 to 85: the KPIs\<close>

text \<open>\<open>int((dff['Status_Mission']=='Success').sum()) if 'Status_Mission' in dff.columns else 0\<close>.
  With two such columns the sum is a series, and \<open>int\<close> of a series raises.\<close>

definition count_success :: "string list \<Rightarrow> cell list list \<Rightarrow> nat py" where
  "count_success cols dff =
     (case lookup_col cols ''Status_Mission'' of
        Absent \<Rightarrow> Inr 0
      | Unique i \<Rightarrow> Inr (length (filter (\<lambda>r. cell_at r i = Str ''Success'') dff))
      | Duplicated \<Rightarrow> Inl (TypeError ''cannot convert the series to int''))"

text \<open>\<open>str(x).lower() == 'active'\<close> for one cell: \<open>str\<close> of a missing value is
  \<open>nan\<close> and of a number its digits, neither of which is \<open>active\<close>.\<close>

definition is_active :: "cell \<Rightarrow> bool" where
  "is_active c \<longleftrightarrow> (case c of Str s \<Rightarrow> py_lower s = ''active'' | _ \<Rightarrow> False)"

text \<open>\<open>int((dff['Status_Rocket'].astype(str).str.lower()=='active').sum())\<close>, or 0 without
  the column. A frame has no \<open>.str\<close> accessor.\<close>

definition count_active :: "string list \<Rightarrow> cell list list \<Rightarrow> nat py" where
  "count_active cols dff =
     (case lookup_col cols ''Status_Rocket'' of
        Absent \<Rightarrow> Inr 0
      | Unique i \<Rightarrow> Inr (length (filter (\<lambda>r. is_active (cell_at r i)) dff))
      | Duplicated \<Rightarrow> Inl (AttributeError ''str''))"

text \<open>\<open>f"{round((succ/total_launches*100),2)}%" if total_launches else "N/A"\<close>.\<close>

definition success_rate :: "nat \<Rightarrow> nat \<Rightarrow> string" where
  "success_rate succ total_launches =
     (if total_launches = 0 then ''N/A''
      else repr_hundredths
             (nat (py_round2 (to_double (to_double (of_nat succ / of_nat total_launches) * 100)))) @ ''%'')"

section \<open>Lines 100, 105 and 111: the chart data\<close>

text \<open>\<open>groupby(key).size()\<close>: each distinct key with its number of rows, keys ascending.\<close>

definition group_size :: "'k::linorder list \<Rightarrow> ('k \<times> nat) list" where
  "group_size ks = map (\<lambda>k. (k, count_list ks k)) (sort (remdups ks))"

text \<open>Line 100: \<open>dff.groupby('Year').size().reset_index(name='Launches').sort_values('Year')\<close>.\<close>

definition launches_per_year :: "nat \<Rightarrow> cell list list \<Rightarrow> (int \<times> nat) list" where
  "launches_per_year yi dff =
     sort_key fst (group_size (map (\<lambda>r. year_value (cell_at r yi)) dff))"

text \<open>The distinct values of a list in order of first appearance (pandas' hash-table order).\<close>

definition first_seen :: "'a list \<Rightarrow> 'a list" where
  "first_seen xs = rev (remdups (rev xs))"

text \<open>\<open>Series.value_counts()\<close>: a stable sort by descending count.\<close>

definition value_counts :: "cell list \<Rightarrow> (cell \<times> nat) list" where
  "value_counts cs =
     (let vs = filter notna cs in
      sort_key (\<lambda>p. - int (snd p)) (map (\<lambda>k. (k, count_list vs k)) (first_seen vs)))"

text \<open>Lines 105 and 106: \<open>dff['Country'].value_counts()\<close> and its first fifteen rows.\<close>

definition top_countries :: "nat \<Rightarrow> cell list list \<Rightarrow> (cell \<times> nat) list" where
  "top_countries ci dff = take 15 (value_counts (map (\<lambda>r. cell_at r ci) dff))"

text \<open>Line 111: \<open>dff.groupby(['Year','Status_Mission']).size()\<close>; rows without an outcome
  are left out by \<open>groupby\<close>.\<close>

definition outcomes :: "nat \<Rightarrow> nat \<Rightarrow> cell list list \<Rightarrow> ((int \<times> cell) \<times> nat) list" where
  "outcomes yi mi dff =
     group_size (map (\<lambda>r. (year_value (cell_at r yi), cell_at r mi))
                   (filter (\<lambda>r. notna (cell_at r mi)) dff))"

section \<open>Lemmas\<close>

lemma group_size_keys: "map fst (group_size ks) = sort (remdups ks)"
  by (simp add: group_size_def comp_def)

theorem group_size_sum: "(\<Sum>p\<leftarrow>group_size ks. snd p) = length ks"
proof -
  have "(\<Sum>p\<leftarrow>group_size ks. snd p) = (\<Sum>k\<leftarrow>sort (remdups ks). count_list ks k)"
    by (simp add: group_size_def comp_def)
  also have "\<dots> = length ks" by (rule sum_list_map_count_list) auto
  finally show ?thesis .
qed

theorem group_size_sorted: "sorted_wrt (<) (map fst (group_size ks))"
  by (simp add: group_size_keys strict_sorted_iff)

theorem group_size_member: "(k, n) \<in> set (group_size ks) \<longleftrightarrow> k \<in> set ks \<and> n = count_list ks k"
  by (auto simp: group_size_def)

lemma group_size_pos: "p \<in> set (group_size ks) \<Longrightarrow> 0 < snd p"
  by (auto simp: group_size_def count_list_0_iff intro!: gr0I)

lemma launches_per_year_eq:
  "launches_per_year yi dff = group_size (map (\<lambda>r. year_value (cell_at r yi)) dff)"
  unfolding launches_per_year_def
  by (rule sort_key_id_if_sorted) (simp add: group_size_keys)

lemma first_seen_set [simp]: "set (first_seen xs) = set xs"
  by (simp add: first_seen_def)

lemma first_seen_distinct [simp]: "distinct (first_seen xs)"
  by (simp add: first_seen_def)

lemma value_counts_perm:
  "mset (value_counts cs) =
     mset (map (\<lambda>k. (k, count_list (filter notna cs) k)) (first_seen (filter notna cs)))"
  by (simp add: value_counts_def Let_def)

lemma value_counts_keys:
  "set (map fst (value_counts cs)) = set (filter notna cs) \<and> distinct (map fst (value_counts cs))"
proof -
  have "mset (map fst (value_counts cs)) = image_mset fst (mset (value_counts cs))" by simp
  also have "\<dots> = mset (map fst (map (\<lambda>k. (k, count_list (filter notna cs) k)) (first_seen (filter notna cs))))"
    by (simp only: value_counts_perm mset_map)
  also have "\<dots> = mset (first_seen (filter notna cs))" by (simp add: comp_def)
  finally have m: "mset (map fst (value_counts cs)) = mset (first_seen (filter notna cs))" .
  then have "set (map fst (value_counts cs)) = set (filter notna cs)"
    by (metis first_seen_set set_mset_mset)
  moreover have "distinct (map fst (value_counts cs))"
    using m first_seen_distinct mset_eq_imp_distinct_iff by blast
  ultimately show ?thesis by simp
qed

theorem value_counts_sorted: "sorted (map (\<lambda>p. - int (snd p)) (value_counts cs))"
  by (simp add: value_counts_def Let_def)

lemma value_counts_member: "(k, n) \<in> set (value_counts cs) \<longleftrightarrow> notna k \<and> k \<in> set cs \<and> n = count_list cs k"
  by (auto simp: value_counts_def Let_def count_list_filter)

lemma value_counts_sum: "(\<Sum>p\<leftarrow>value_counts cs. snd p) = length (filter notna cs)"
proof -
  let ?vs = "filter notna cs"
  let ?ws = "map (\<lambda>k. (k, count_list ?vs k)) (first_seen ?vs)"
  have "(\<Sum>p\<leftarrow>value_counts cs. snd p) = sum_mset (mset (map snd (value_counts cs)))"
    by (simp only: sum_mset_sum_list)
  also have "mset (map snd (value_counts cs)) = mset (map snd ?ws)"
    by (simp only: mset_map value_counts_perm)
  also have "sum_mset (mset (map snd ?ws)) = (\<Sum>p\<leftarrow>?ws. snd p)"
    by (simp only: sum_mset_sum_list)
  also have "\<dots> = (\<Sum>k\<leftarrow>first_seen ?vs. count_list ?vs k)" by (simp add: comp_def)
  also have "\<dots> = length ?vs" by (rule sum_list_map_count_list) auto
  finally show ?thesis .
qed
lemma sorted_take_drop:
  "sorted (map f xs) \<Longrightarrow> x \<in> set (take n xs) \<Longrightarrow> y \<in> set (drop n xs) \<Longrightarrow> f x \<le> f y"
proof -
  assume s: "sorted (map f xs)" and x: "x \<in> set (take n xs)" and y: "y \<in> set (drop n xs)"
  have "map f xs = map f (take n xs) @ map f (drop n xs)" by (simp flip: map_append)
  with s have "sorted (map f (take n xs) @ map f (drop n xs))" by simp
  then show "f x \<le> f y" using x y by (simp add: sorted_append)
qed

text \<open>C23: No country missing from the top-countries bar chart (lines 105 and 106) has more launches than a country shown.\<close>

theorem top_countries_top:
  assumes "(k, n) \<in> set (top_countries ci dff)"
    and "notna k'" "k' \<in> set (map (\<lambda>r. cell_at r ci) dff)"
    and "k' \<notin> fst ` set (top_countries ci dff)"
  shows "count_list (map (\<lambda>r. cell_at r ci) dff) k' \<le> n"
proof -
  let ?cs = "map (\<lambda>r. cell_at r ci) dff"
  let ?vc = "value_counts ?cs"
  have "k' \<in> set (map fst ?vc)" using assms(2,3) value_counts_keys by auto
  then obtain n' where kn': "(k', n') \<in> set ?vc" by auto
  then have n': "n' = count_list ?cs k'" by (simp add: value_counts_member)
  have "(k', n') \<notin> set (take 15 ?vc)" using assms(4) unfolding top_countries_def by force
  then have "(k', n') \<in> set (drop 15 ?vc)" using kn'
    by (metis Un_iff append_take_drop_id set_append)
  moreover have "(k, n) \<in> set (take 15 ?vc)" using assms(1) by (simp add: top_countries_def)
  ultimately have "- int n \<le> - int n'"
    using sorted_take_drop [OF value_counts_sorted, of "(k, n)" 15 "?cs" "(k', n')"] by simp
  then show ?thesis using n' by simp
qed

theorem top_countries_length: "length (top_countries ci dff) \<le> 15"
  by (simp add: top_countries_def)

theorem count_success_le: "count_success cols dff = Inr s \<Longrightarrow> s \<le> length dff"
  by (auto simp: count_success_def split: col_lookup.splits)

theorem count_active_le: "count_active cols dff = Inr s \<Longrightarrow> s \<le> length dff"
  by (auto simp: count_active_def split: col_lookup.splits)

lemma success_rate_double:
  assumes "s \<le> t" "0 < t"
  shows "\<exists>y. success_rate s t = repr_hundredths (nat (round_half_even y)) @ ''%'' \<and>
           0 \<le> y \<and> y \<le> 10000 + 1/4 \<and> \<bar>y - 10000 * of_nat s / of_nat t\<bar> \<le> (1 / 100000000000 :: rat)"
proof -
  define p where "p = (of_nat s / of_nat t :: rat)"
  have p0: "0 \<le> p" and p1: "p \<le> 1" using assms by (auto simp: p_def divide_le_eq_1)
  define x1 where "x1 = to_double p"
  have e1: "p - p / 9007199254740992 \<le> x1 \<and> x1 \<le> p + p / 9007199254740992"
    using to_double_bounds [OF p0] by (simp add: x1_def)
  have x10: "0 \<le> x1" using e1 p0 by linarith
  define x2 where "x2 = to_double (x1 * 100)"
  have e2: "x1 * 100 - x1 * 100 / 9007199254740992 \<le> x2 \<and> x2 \<le> x1 * 100 + x1 * 100 / 9007199254740992"
    using to_double_bounds [of "x1 * 100"] x10 by (simp add: x2_def)
  define y where "y = x2 * 100"
  have y: "0 \<le> y" "y \<le> 10000 + 1/4" using e1 e2 p0 p1 unfolding y_def by linarith+
  have "y - 10000 * p \<le> 1 / 100000000000" "10000 * p - y \<le> 1 / 100000000000"
    using e1 e2 p0 p1 unfolding y_def by linarith+
  then have ey: "\<bar>y - 10000 * of_nat s / of_nat t\<bar> \<le> (1 / 100000000000 :: rat)"
    unfolding abs_le_iff p_def by simp
  have "success_rate s t = repr_hundredths (nat (round_half_even y)) @ ''%''"
    using assms by (simp add: success_rate_def py_round2_def y_def x2_def x1_def p_def)
  then show ?thesis using y ey by blast
qed

lemma round_half_even_bounds:
  assumes "0 \<le> y" "y \<le> 10000 + 1/4"
  shows "0 \<le> round_half_even y \<and> round_half_even y \<le> 10000"
proof -
  have "of_int (round_half_even y) - y \<le> 1/2" "y - of_int (round_half_even y) \<le> 1/2"
    using round_half_even_near [of y] unfolding abs_le_iff by linarith+
  then have "(of_int (-1) :: rat) < of_int (round_half_even y)" "(of_int (round_half_even y) :: rat) < of_int 10001"
    using assms by simp_all
  then show ?thesis by (simp only: of_int_less_iff) simp
qed

text \<open>C13: For s successes among t > 0 launches, the success-rate text is a number of hundredths h followed by %, with h at most 10000 and within one half (plus the float error) of the exact percentage in hundredths.\<close>

theorem success_rate_bounds:
  assumes "s \<le> t" "0 < t"
  shows "\<exists>h. success_rate s t = repr_hundredths h @ ''%'' \<and> h \<le> 10000 \<and>
           \<bar>of_nat h - 10000 * of_nat s / of_nat t\<bar> \<le> (1/2 + 1/10^11 :: rat)"
proof -
  obtain y where sr: "success_rate s t = repr_hundredths (nat (round_half_even y)) @ ''%''"
    and y: "0 \<le> y" "y \<le> 10000 + 1/4" and ey: "\<bar>y - 10000 * of_nat s / of_nat t\<bar> \<le> (1 / 100000000000 :: rat)"
    using success_rate_double [OF assms] by blast
  define r where "r = round_half_even y"
  have r: "0 \<le> r" "r \<le> 10000" using round_half_even_bounds [OF y] unfolding r_def by simp_all
  have "\<bar>of_int r - y\<bar> \<le> 1/2" unfolding r_def by (rule round_half_even_near)
  then have "\<bar>of_int r - 10000 * of_nat s / of_nat t\<bar> \<le> (1/2 + 1/100000000000 :: rat)"
    using ey unfolding abs_le_iff by linarith
  moreover have "(of_nat (nat r) :: rat) = of_int r" using r by simp
  ultimately have "\<bar>of_nat (nat r) - 10000 * of_nat s / of_nat t\<bar> \<le> (1/2 + 1/10^11 :: rat)" by simp
  moreover have "nat r \<le> 10000" using r by simp
  ultimately show ?thesis using sr unfolding r_def by blast
qed

text \<open>C14: When the exact percentage has at most two decimals (h hundredths, h t = 10000 s), the success-rate text shows exactly h hundredths: the two float roundings never move an exact rate to a neighbouring hundredth.\<close>

theorem success_rate_exact:
  assumes "s \<le> t" "0 < t" "of_nat h * of_nat t = 10000 * (of_nat s :: rat)"
  shows "success_rate s t = repr_hundredths h @ ''%''"
proof -
  obtain y where sr: "success_rate s t = repr_hundredths (nat (round_half_even y)) @ ''%''"
    and ey: "\<bar>y - 10000 * of_nat s / of_nat t\<bar> \<le> (1 / 100000000000 :: rat)"
    using success_rate_double [OF assms(1,2)] by blast
  have "10000 * of_nat s / of_nat t = (of_nat h :: rat)" using assms(2,3) by (simp add: field_simps)
  then have ey': "\<bar>y - of_nat h\<bar> \<le> (1 / 100000000000 :: rat)" using ey by simp
  have "\<bar>of_int (round_half_even y) - y\<bar> \<le> 1/2" by (rule round_half_even_near)
  then have "of_int (round_half_even y) < (of_int (int h + 1) :: rat)" "(of_int (int h - 1) :: rat) < of_int (round_half_even y)"
    using ey' unfolding abs_le_iff by simp_all
  then have "round_half_even y = int h" by (simp only: of_int_less_iff)
  then show ?thesis using sr by simp
qed

lemma count_list_map_filter: "count_list (map f xs) y = length (filter (\<lambda>x. f x = y) xs)"
  by (induction xs) auto

text \<open>C22: A year appears in the launches-per-year series with count n exactly when n is the positive number of filtered rows of that year.\<close>

theorem launches_per_year_counts:
  "(y, n) \<in> set (launches_per_year yi dff) \<longleftrightarrow>
     0 < n \<and> n = length (filter (\<lambda>r. year_value (cell_at r yi) = y) dff)"
  by (auto simp: launches_per_year_eq group_size_member count_list_map_filter filter_empty_conv
                 length_greater_0_conv)

text \<open>C21: The launches-per-year series (line 100) counts every filtered row once and lists the years in strictly increasing order.\<close>

theorem launches_per_year_total:
  "(\<Sum>p\<leftarrow>launches_per_year yi dff. snd p) = length dff \<and> sorted_wrt (<) (map fst (launches_per_year yi dff))"
  by (simp add: launches_per_year_eq group_size_sum group_size_sorted)

text \<open>C24: The outcomes series (line 111) counts every filtered row with a known outcome once and lists its (year, outcome) keys in strictly increasing order.\<close>

theorem outcomes_total:
  "(\<Sum>p\<leftarrow>outcomes yi mi dff. snd p) = length (filter (\<lambda>r. notna (cell_at r mi)) dff) \<and>
   sorted_wrt (<) (map fst (outcomes yi mi dff))"
  by (simp add: outcomes_def group_size_sum group_size_sorted)

lemma sum_list_take_le: "(\<Sum>p\<leftarrow>take k xs. snd p) \<le> (\<Sum>p\<leftarrow>xs. (snd p :: nat))"
proof -
  have "(\<Sum>p\<leftarrow>xs. snd p) = (\<Sum>p\<leftarrow>take k xs. snd p) + (\<Sum>p\<leftarrow>drop k xs. (snd p :: nat))"
    by (simp flip: sum_list_append map_append)
  then show ?thesis by simp
qed

lemma top_countries_sum: "(\<Sum>p\<leftarrow>top_countries ci dff. snd p) \<le> length dff"
proof -
  have "(\<Sum>p\<leftarrow>top_countries ci dff. snd p) \<le> (\<Sum>p\<leftarrow>value_counts (map (\<lambda>r. cell_at r ci) dff). snd p)"
    unfolding top_countries_def by (rule sum_list_take_le)
  also have "\<dots> = length (filter notna (map (\<lambda>r. cell_at r ci) dff))" by (rule value_counts_sum)
  also have "\<dots> \<le> length dff" using length_filter_le [of notna "map (\<lambda>r. cell_at r ci) dff"] by simp
  finally show ?thesis .
qed

end
