(* ===== verification/Layout.thy ===== *)
theory Layout
  imports Load
begin

text \<open>
  The page (\<open>src/dashboard.py\<close>, lines 17 to 58): the Dash app, its title and its layout
  as a tree of components, each with the properties the script sets apart from styles.
  Dash looks a component up by its id; the widget lookup below is how the interaction
  model (theory \<open>Dashboard\<close>) finds the values the widgets start with and the choices
  they offer.
\<close>

section \<open>Components\<close>

text \<open>The components the layout uses: \<open>html.H1\<close>, \<open>html.Div\<close> (its id and children),
  \<open>html.Label\<close>, \<open>dcc.Dropdown\<close> (id, options as label and value, value, placeholder,
  and the flag \<open>multi\<close>), \<open>dcc.RangeSlider\<close> (id, min, max, value, marks, step),
  \<open>html.Hr\<close> and \<open>dcc.Graph\<close> (id). Styles are not modelled.\<close>

datatype component =
    H1 string
  | Div "string option" "component list"
  | Label string
  | Dropdown string "(cell \<times> cell) list" "cell list option" string bool
  | RangeSlider string int int "int \<times> int" "(int \<times> string) list" int
  | Hr
  | Graph string

text \<open>Lines 35 and 40: \<open>[{'label':c,'value':c} for c in options]\<close>.\<close>

definition dropdown_options :: "cell list \<Rightarrow> (cell \<times> cell) list" where
  "dropdown_options cs = map (\<lambda>c. (c, c)) cs"

text \<open>Lines 26 to 58: \<open>app.layout\<close>.\<close>

definition layout :: "app \<Rightarrow> component" where
  "layout a =
     Div None
       [H1 ''Space Missions Dashboard'',
        Div (Some ''kpi-row'') [],
        Div None
          [Div None
             [Label ''Country'',
              Dropdown ''country_filter'' (dropdown_options (country_options a)) None ''All countries'' True],
           Div None
             [Label ''Company'',
              Dropdown ''company_filter'' (dropdown_options (company_options a)) None ''All companies'' True],
           Div None
             [Label ''Year range'',
              RangeSlider ''year_slider'' (min_year a) (max_year a) (min_year a, max_year a)
                (slider_marks a) 1]],
        Hr,
        Graph ''launches_time'',
        Graph ''top_countries'',
        Graph ''missions_outcomes'',
        Div (Some ''debug'') []]"

text \<open>Lines 17 and 18: the app, its title and (line 26) its layout.\<close>

record dash_app =
  app_title :: string
  app_layout :: component

definition make_app :: "app \<Rightarrow> dash_app" where
  "make_app a = \<lparr>app_title = ''Space Missions Dashboard (3 Charts)'', app_layout = layout a\<rparr>"

section \<open>How Dash finds a component\<close>

text \<open>The components of a tree in document order.\<close>

fun components :: "component \<Rightarrow> component list" where
  "components (Div i cs) = Div i cs # concat (map components cs)"
| "components c = [c]"

fun comp_id :: "component \<Rightarrow> string option" where
  "comp_id (Div i _) = i"
| "comp_id (Dropdown i _ _ _ _) = Some i"
| "comp_id (RangeSlider i _ _ _ _ _) = Some i"
| "comp_id (Graph i) = Some i"
| "comp_id _ = None"

definition widget :: "component \<Rightarrow> string \<Rightarrow> component option" where
  "widget c i = find (\<lambda>d. comp_id d = Some i) (components c)"

section \<open>Widget values\<close>

text \<open>The value a dropdown starts with, and the options it offers.\<close>

fun dropdown_start :: "component option \<Rightarrow> cell list option" where
  "dropdown_start (Some (Dropdown _ _ v _ _)) = v"
| "dropdown_start _ = None"

fun dropdown_choices :: "component option \<Rightarrow> cell list" where
  "dropdown_choices (Some (Dropdown _ opts _ _ _)) = map snd opts"
| "dropdown_choices _ = []"

text \<open>Whether a dropdown lets the user pick several options (\<open>multi=True\<close>).\<close>

fun dropdown_multi :: "component option \<Rightarrow> bool" where
  "dropdown_multi (Some (Dropdown _ _ _ _ m)) = m"
| "dropdown_multi _ = False"

text \<open>The range a range slider starts with, and its bounds (a slider that is absent
  offers the empty range).\<close>

fun slider_start :: "component option \<Rightarrow> int \<times> int" where
  "slider_start (Some (RangeSlider _ _ _ v _ _)) = v"
| "slider_start _ = (1, 0)"

fun slider_bounds :: "component option \<Rightarrow> int \<times> int" where
  "slider_bounds (Some (RangeSlider _ lo hi _ _ _)) = (lo, hi)"
| "slider_bounds _ = (1, 0)"

section \<open>Lemmas\<close>

lemma layout_widgets [simp]:
  "widget (layout a) ''country_filter'' =
     Some (Dropdown ''country_filter'' (dropdown_options (country_options a)) None ''All countries'' True)"
  "widget (layout a) ''company_filter'' =
     Some (Dropdown ''company_filter'' (dropdown_options (company_options a)) None ''All companies'' True)"
  "widget (layout a) ''year_slider'' =
     Some (RangeSlider ''year_slider'' (min_year a) (max_year a) (min_year a, max_year a) (slider_marks a) 1)"
  by (simp_all add: widget_def layout_def)

lemma dropdown_options_values [simp]: "snd ` set (dropdown_options cs) = set cs"
  by (force simp: dropdown_options_def)

lemma dropdown_choices_layout [simp]:
  "dropdown_choices (widget (layout a) ''country_filter'') = country_options a"
  "dropdown_choices (widget (layout a) ''company_filter'') = company_options a"
  by (simp_all add: dropdown_options_def comp_def)

lemma dropdown_multi_layout [simp]:
  "dropdown_multi (widget (layout a) ''country_filter'')"
  "dropdown_multi (widget (layout a) ''company_filter'')"
  by simp_all

end
