(* ===== verification/Dashboard.thy ===== *)
theory Dashboard
  imports Aggregate Layout
begin

text \<open>
  The callback \<open>update\<close> (\<open>src/dashboard.py\<close>, lines 68 to 116) and the KPI card
  helper (lines 20 to 24). The callback filters the table, computes four KPI cards,
  returns three placeholder figures and \<open>Filtered rows: 0\<close> when no row is left, and
  otherwise the launches per year, the top fifteen countries and the mission outcomes
  per year (or a placeholder when no outcome is known), with the row count as debug
  text. A figure is modelled by its kind, its title and the data it plots; colours,
  axes and sizes are not modelled. The section on interaction models the decorator
  (lines 68 to 77): Dash calls the callback once at page load and again after every
  change of an input, passes the values of the Input list in order as its arguments, and
  shows the i-th component of the returned tuple in the i-th Output.
\<close>

section \<open>Cards and figures\<close>

text \<open>What a card shows: the script passes an integer or a text.\<close>

datatype kpi_value = KCount nat | KText string

record kpi_card =
  card_title :: string
  card_value :: kpi_value

text \<open>\<open>make_kpi_card(title, value)\<close>; the inline style is not modelled.\<close>

definition make_kpi_card :: "string \<Rightarrow> kpi_value \<Rightarrow> kpi_card" where
  "make_kpi_card title value = \<lparr>card_title = title, card_value = value\<rparr>"

text \<open>The figures the callback builds with plotly express, by kind, title and the series
  they plot; a scatter without data is a placeholder, whose flag says whether its axes are
  shown (line 97 hides them). The plotly settings of each kind are in theory \<open>Charts\<close>.\<close>

datatype figure =
    Scatter string bool
  | Line string "(int \<times> nat) list"
  | Bar string "(cell \<times> nat) list"
  | StackedBar string "((int \<times> cell) \<times> nat) list"

text \<open>The tuple the callback returns (lines 98 and 116), one field per component, in
  order; each field is named after the \<open>Output\<close> of the decorator at the same position.\<close>

record view =
  kpis :: "kpi_card list"
  launches_time :: figure
  top_countries_fig :: figure
  missions_outcomes :: figure
  debug :: string

section \<open>The callback\<close>

text \<open>Lines 110 to 114: \<open>'Status_Mission' in dff.columns and dff['Status_Mission'].notna().any()\<close>.
  With two such columns the test is a series, whose truth value Python refuses.\<close>

definition outcomes_fig :: "string list \<Rightarrow> nat \<Rightarrow> cell list list \<Rightarrow> figure py" where
  "outcomes_fig cols yi dff =
     (case lookup_col cols ''Status_Mission'' of
        Absent \<Rightarrow> Inr (Scatter ''Mission outcome data unavailable'' True)
      | Unique i \<Rightarrow>
          if list_ex (\<lambda>r. notna (cell_at r i)) dff
          then Inr (StackedBar ''Mission Outcomes Over Time'' (outcomes yi i dff))
          else Inr (Scatter ''Mission outcome data unavailable'' True)
      | Duplicated \<Rightarrow> Inl (ValueError ''The truth value of a Series is ambiguous''))"

text \<open>Lines 87 to 92: the four KPI cards.\<close>

definition kpi_cards :: "nat \<Rightarrow> nat \<Rightarrow> nat \<Rightarrow> kpi_card list" where
  "kpi_cards total_launches succ active =
     [make_kpi_card ''Total launches'' (KCount total_launches),
      make_kpi_card ''Total successes'' (KCount succ),
      make_kpi_card ''Success rate'' (KText (success_rate succ total_launches)),
      make_kpi_card ''Active rockets'' (KCount active)]"

definition update :: "app \<Rightarrow> cell list option \<Rightarrow> cell list option \<Rightarrow> int \<times> int \<Rightarrow> view py" where
  "update a selected_countries selected_companies year_range =
     (let dff = filter_df a selected_countries selected_companies year_range;
          total_launches = length dff
      in case count_success (columns a) dff of
           Inl e \<Rightarrow> Inl e
         | Inr succ \<Rightarrow>
      (case count_active (columns a) dff of
           Inl e \<Rightarrow> Inl e
         | Inr active \<Rightarrow>
      (let cards = kpi_cards total_launches succ active
       in if dff = [] then
            (let empty_fig = Scatter ''No data for selected filters'' False
             in Inr \<lparr>kpis = cards, launches_time = empty_fig, top_countries_fig = empty_fig,
                     missions_outcomes = empty_fig, debug = ''Filtered rows: 0''\<rparr>)
          else
            (case outcomes_fig (columns a) (year_col a) dff of
               Inl e \<Rightarrow> Inl e
             | Inr fig3 \<Rightarrow>
                 Inr \<lparr>kpis = cards,
                      launches_time = Line ''Number of Space Launches Per Year''
                                        (launches_per_year (year_col a) dff),
                      top_countries_fig = Bar ''Top Countries by Launches''
                                            (top_countries (country_col a) dff),
                      missions_outcomes = fig3,
                      debug = ''Filtered rows: '' @ str_int (int total_launches)\<rparr>))))"

section \<open>Interaction\<close>

text \<open>What the page holds between callbacks: the values of the three inputs of the
  callback (lines 74 to 76) and the last outputs it returned. The inputs start at the
  values the layout gives the widgets (lines 35, 40 and 45); Dash runs the callback once
  when the page loads and again after each change of an input. When the callback raises,
  Dash reports the error and leaves the outputs as they were.\<close>

record ui =
  country_value :: "cell list option"
  company_value :: "cell list option"
  slider_value :: "int \<times> int"
  outputs :: "view option"

datatype event = SelectCountries "cell list" | SelectCompanies "cell list" | MoveSlider int int

text \<open>Lines 69 to 76: the decorator's outputs and inputs, as (component id, property), in
  the order it lists them.\<close>

definition callback_outputs :: "(string \<times> string) list" where
  "callback_outputs = [(''kpi-row'', ''children''), (''launches_time'', ''figure''),
     (''top_countries'', ''figure''), (''missions_outcomes'', ''figure''), (''debug'', ''children'')]"

definition callback_inputs :: "(string \<times> string) list" where
  "callback_inputs = [(''country_filter'', ''value''), (''company_filter'', ''value''), (''year_slider'', ''value'')]"

text \<open>A value a property of the page holds: a dropdown's selection, a slider's range, the
  KPI cards, a figure or a text.\<close>

datatype prop_value =
    PSelection "cell list option"
  | PRange "int \<times> int"
  | PCards "kpi_card list"
  | PFigure figure
  | PText string

text \<open>The \<open>value\<close> property of each widget, as the page state holds it.\<close>

fun input_prop :: "ui \<Rightarrow> string \<times> string \<Rightarrow> prop_value option" where
  "input_prop u (i, p) =
     (if p \<noteq> ''value'' then None
      else if i = ''country_filter'' then Some (PSelection (country_value u))
      else if i = ''company_filter'' then Some (PSelection (company_value u))
      else if i = ''year_slider'' then Some (PRange (slider_value u))
      else None)"

text \<open>Line 78: Dash calls \<open>update(selected_countries, selected_companies, year_range)\<close>
  with the values of the inputs as positional arguments, in the order of the \<open>Input\<close>
  list. Arguments that do not fit the parameters are refused (\<open>TypeError\<close>).\<close>

fun call_update :: "app \<Rightarrow> prop_value option list \<Rightarrow> view py" where
  "call_update a [Some (PSelection sc), Some (PSelection sm), Some (PRange yr)] = update a sc sm yr"
| "call_update a _ = Inl (TypeError ''update() arguments'')"

text \<open>Lines 98 and 116: the returned tuple, component by component.\<close>

definition returned :: "view \<Rightarrow> prop_value list" where
  "returned v =
     [PCards (kpis v), PFigure (launches_time v), PFigure (top_countries_fig v),
      PFigure (missions_outcomes v), PText (debug v)]"

text \<open>Dash gives the i-th component of the returned tuple to the i-th \<open>Output\<close>: what
  the page shows for a property.\<close>

definition displayed :: "ui \<Rightarrow> string \<times> string \<Rightarrow> prop_value option" where
  "displayed u p =
     (case outputs u of None \<Rightarrow> None | Some v \<Rightarrow> map_of (zip callback_outputs (returned v)) p)"

definition layout_init :: "app \<Rightarrow> ui" where
  "layout_init a =
     (let l = layout a
      in \<lparr>country_value = dropdown_start (widget l ''country_filter''),
          company_value = dropdown_start (widget l ''company_filter''),
          slider_value = slider_start (widget l ''year_slider''), outputs = None\<rparr>)"

text \<open>One run of the callback (the decorator, lines 68 to 78): the arguments are read from
  the inputs the decorator lists; the view returned is shown, an exception leaves the page
  as it was.\<close>

definition fire :: "app \<Rightarrow> ui \<Rightarrow> ui" where
  "fire a u =
     (case call_update a (map (input_prop u) callback_inputs) of
        Inl e \<Rightarrow> u
      | Inr v \<Rightarrow> u\<lparr>outputs := Some v\<rparr>)"

fun set_input :: "event \<Rightarrow> ui \<Rightarrow> ui" where
  "set_input (SelectCountries xs) u = u\<lparr>country_value := Some xs\<rparr>"
| "set_input (SelectCompanies xs) u = u\<lparr>company_value := Some xs\<rparr>"
| "set_input (MoveSlider lo hi) u = u\<lparr>slider_value := (lo, hi)\<rparr>"

definition ui_step :: "app \<Rightarrow> event \<Rightarrow> ui \<Rightarrow> ui" where
  "ui_step a e u = fire a (set_input e u)"

text \<open>The changes the widgets of a layout allow: a dropdown picks among its options, several
  of them only when it is \<open>multi\<close>; a range slider with step 1 gives an ordered pair of
  integers within its bounds.\<close>

fun event_allowed :: "component \<Rightarrow> event \<Rightarrow> bool" where
  "event_allowed l (SelectCountries xs) \<longleftrightarrow>
     set xs \<subseteq> set (dropdown_choices (widget l ''country_filter'')) \<and>
     (dropdown_multi (widget l ''country_filter'') \<or> length xs \<le> 1)"
| "event_allowed l (SelectCompanies xs) \<longleftrightarrow>
     set xs \<subseteq> set (dropdown_choices (widget l ''company_filter'')) \<and>
     (dropdown_multi (widget l ''company_filter'') \<or> length xs \<le> 1)"
| "event_allowed l (MoveSlider lo hi) \<longleftrightarrow>
     fst (slider_bounds (widget l ''year_slider'')) \<le> lo \<and> lo \<le> hi \<and> hi \<le> snd (slider_bounds (widget l ''year_slider''))"

inductive reachable :: "app \<Rightarrow> ui \<Rightarrow> bool" for a :: app where
  load: "reachable a (fire a (layout_init a))"
| step: "reachable a u \<Longrightarrow> event_allowed (layout a) e \<Longrightarrow> reachable a (ui_step a e u)"

section \<open>Lemmas on the callback\<close>

lemma count_success_Inr: "(\<exists>s. count_success cols dff = Inr s) \<longleftrightarrow> length (positions cols ''Status_Mission'') \<le> 1"
  by (auto simp: count_success_def lookup_col_def split: list.splits)

lemma count_active_Inr: "(\<exists>s. count_active cols dff = Inr s) \<longleftrightarrow> length (positions cols ''Status_Rocket'') \<le> 1"
  by (auto simp: count_active_def lookup_col_def split: list.splits)

lemma outcomes_fig_Inr: "length (positions cols ''Status_Mission'') \<le> 1 \<Longrightarrow> \<exists>f. outcomes_fig cols yi dff = Inr f"
  by (auto simp: outcomes_fig_def lookup_col_def split: list.splits)

lemma update_Inr:
  assumes "update a sc sm yr = Inr v"
  defines "dff \<equiv> filter_df a sc sm yr"
  shows "\<exists>s n. count_success (columns a) dff = Inr s \<and> count_active (columns a) dff = Inr n \<and>
           kpis v = kpi_cards (length dff) s n \<and>
           (if dff = [] then
              launches_time v = Scatter ''No data for selected filters'' False \<and>
              top_countries_fig v = Scatter ''No data for selected filters'' False \<and>
              missions_outcomes v = Scatter ''No data for selected filters'' False \<and>
              debug v = ''Filtered rows: 0''
            else
              launches_time v = Line ''Number of Space Launches Per Year'' (launches_per_year (year_col a) dff) \<and>
              top_countries_fig v = Bar ''Top Countries by Launches'' (top_countries (country_col a) dff) \<and>
              outcomes_fig (columns a) (year_col a) dff = Inr (missions_outcomes v) \<and>
              debug v = ''Filtered rows: '' @ str_int (int (length dff)))"
proof (cases "count_success (columns a) dff")
  case (Inl e)
  then show ?thesis using assms by (simp add: update_def Let_def)
next
  case (Inr s)
  show ?thesis
  proof (cases "count_active (columns a) dff")
    case (Inl e)
    then show ?thesis using assms Inr by (simp add: update_def Let_def)
  next
    case n: (Inr n)
    show ?thesis
    proof (cases "dff = []")
      case True
      then show ?thesis using assms Inr n by (auto simp: update_def Let_def)
    next
      case False
      then show ?thesis using assms Inr n
        by (auto simp: update_def Let_def split: sum.splits)
    qed
  qed
qed

lemma update_total:
  assumes "length (positions (columns a) ''Status_Mission'') \<le> 1" "length (positions (columns a) ''Status_Rocket'') \<le> 1"
  shows "\<exists>v. update a sc sm yr = Inr v"
proof -
  let ?dff = "filter_df a sc sm yr"
  obtain s where s: "count_success (columns a) ?dff = Inr s" using assms(1) count_success_Inr by blast
  obtain n where n: "count_active (columns a) ?dff = Inr n" using assms(2) count_active_Inr by blast
  obtain f where f: "outcomes_fig (columns a) (year_col a) ?dff = Inr f" using assms(1) outcomes_fig_Inr by blast
  show ?thesis by (simp add: update_def s n f Let_def)
qed

text \<open>C2: The callback update (lines 78 to 116) returns a view exactly when the labels Status_Mission and Status_Rocket are each held by at most one column; otherwise it raises.\<close>

theorem update_Inr_iff:
  "(\<exists>v. update a sc sm yr = Inr v) \<longleftrightarrow>
     length (positions (columns a) ''Status_Mission'') \<le> 1 \<and> length (positions (columns a) ''Status_Rocket'') \<le> 1"
proof
  assume "\<exists>v. update a sc sm yr = Inr v"
  then obtain v where "update a sc sm yr = Inr v" ..
  from update_Inr [OF this] show "length (positions (columns a) ''Status_Mission'') \<le> 1 \<and> length (positions (columns a) ''Status_Rocket'') \<le> 1"
    using count_success_Inr count_active_Inr by blast
qed (blast intro: update_total)

lemma count_success_Nil: "count_success cols [] = Inr s \<Longrightarrow> s = 0"
  by (auto simp: count_success_def split: col_lookup.splits)

lemma count_active_Nil: "count_active cols [] = Inr s \<Longrightarrow> s = 0"
  by (auto simp: count_active_def split: col_lookup.splits)

text \<open>C10: The KPI row of a view returned by the callback is the four cards built from the number of filtered rows and two counts not larger than it.\<close>

theorem update_kpis:
  assumes "update a sc sm yr = Inr v"
  shows "\<exists>s n. kpis v = kpi_cards (length (filter_df a sc sm yr)) s n \<and>
           s \<le> length (filter_df a sc sm yr) \<and> n \<le> length (filter_df a sc sm yr)"
  using update_Inr [OF assms] count_success_le count_active_le by blast

text \<open>C11: When no row passes the filters, the callback returns zero counts, the text N/A for the success rate, three placeholder figures and the debug text Filtered rows: 0.\<close>

theorem update_empty:
  assumes "update a sc sm yr = Inr v" "filter_df a sc sm yr = []"
  shows "v = \<lparr>kpis = [make_kpi_card ''Total launches'' (KCount 0), make_kpi_card ''Total successes'' (KCount 0),
                  make_kpi_card ''Success rate'' (KText ''N/A''), make_kpi_card ''Active rockets'' (KCount 0)],
             launches_time = Scatter ''No data for selected filters'' False,
             top_countries_fig = Scatter ''No data for selected filters'' False,
             missions_outcomes = Scatter ''No data for selected filters'' False,
             debug = ''Filtered rows: 0''\<rparr>"
proof -
  obtain s n where "count_success (columns a) [] = Inr s" "count_active (columns a) [] = Inr n"
    "kpis v = kpi_cards 0 s n" "launches_time v = Scatter ''No data for selected filters'' False"
    "top_countries_fig v = Scatter ''No data for selected filters'' False"
    "missions_outcomes v = Scatter ''No data for selected filters'' False" "debug v = ''Filtered rows: 0''"
    using update_Inr [OF assms(1)] assms(2) by auto
  moreover from this have "s = 0" "n = 0" by (simp_all add: count_success_Nil count_active_Nil)
  ultimately show ?thesis by (simp add: kpi_cards_def success_rate_def)
qed

lemma str_int_0: "str_int 0 = ''0''"
  by code_simp

text \<open>C12: The debug text of every view is Filtered rows: followed by the number of filtered rows, in both branches of the callback.\<close>

theorem update_debug:
  "update a sc sm yr = Inr v \<Longrightarrow> debug v = ''Filtered rows: '' @ str_int (int (length (filter_df a sc sm yr)))"
  using update_Inr [of a sc sm yr v] by (auto simp: str_int_0 split: if_splits)

lemma outcomes_fig_sum:
  "outcomes_fig cols yi dff = Inr (StackedBar title os) \<Longrightarrow> (\<Sum>p\<leftarrow>os. snd p) \<le> length dff"
  by (auto simp: outcomes_fig_def outcomes_def group_size_sum split: col_lookup.splits if_splits)

section \<open>Lemmas on the interaction\<close>

lemma layout_init_eq [simp]:
  "layout_init a = \<lparr>country_value = None, company_value = None,
                    slider_value = (min_year a, max_year a), outputs = None\<rparr>"
  by (simp add: layout_init_def Let_def)

lemma event_allowed_layout [simp]:
  "event_allowed (layout a) (SelectCountries xs) \<longleftrightarrow> set xs \<subseteq> set (country_options a)"
  "event_allowed (layout a) (SelectCompanies xs) \<longleftrightarrow> set xs \<subseteq> set (company_options a)"
  "event_allowed (layout a) (MoveSlider lo hi) \<longleftrightarrow> min_year a \<le> lo \<and> lo \<le> hi \<and> hi \<le> max_year a"
  by simp_all

lemma call_update_inputs [simp]:
  "call_update a (map (input_prop u) callback_inputs) = update a (country_value u) (company_value u) (slider_value u)"
  by (simp add: callback_inputs_def)

lemma fire_inputs [simp]:
  "country_value (fire a u) = country_value u" "company_value (fire a u) = company_value u"
  "slider_value (fire a u) = slider_value u"
  by (simp_all add: fire_def split: sum.splits)

lemma fire_Inr: "update a (country_value u) (company_value u) (slider_value u) = Inr v \<Longrightarrow> outputs (fire a u) = Some v"
  by (simp add: fire_def)

lemma displayed_view [simp]:
  "outputs u = Some v \<Longrightarrow>
     displayed u (''kpi-row'', ''children'') = Some (PCards (kpis v)) \<and>
     displayed u (''launches_time'', ''figure'') = Some (PFigure (launches_time v)) \<and>
     displayed u (''top_countries'', ''figure'') = Some (PFigure (top_countries_fig v)) \<and>
     displayed u (''missions_outcomes'', ''figure'') = Some (PFigure (missions_outcomes v)) \<and>
     displayed u (''debug'', ''children'') = Some (PText (debug v))"
  by (simp add: displayed_def callback_outputs_def returned_def)

lemma reachable_fired: "reachable a u \<Longrightarrow> (\<And>u'. u = fire a u' \<Longrightarrow> thesis) \<Longrightarrow> thesis"
  by (induction rule: reachable.induct) (auto simp: ui_step_def)

lemma reachable_update:
  assumes "reachable a u"
    and "length (positions (columns a) ''Status_Mission'') \<le> 1" "length (positions (columns a) ''Status_Rocket'') \<le> 1"
  shows "\<exists>v. update a (country_value u) (company_value u) (slider_value u) = Inr v \<and> outputs u = Some v"
proof -
  obtain u' where u: "u = fire a u'" using assms(1) by (rule reachable_fired)
  obtain v where v: "update a (country_value u') (company_value u') (slider_value u') = Inr v"
    using update_total [OF assms(2,3)] by blast
  then show ?thesis using fire_Inr [OF v] u by simp
qed

text \<open>C4: In every state the page can reach, each component the decorator names as an output (lines 69 to 73) shows the matching part of what the callback computes from the current values of the inputs (lines 74 to 76): the KPI row the four cards of the filtered rows, the launches_time graph the per-year line (or the placeholder), the top_countries graph the country bars, the missions_outcomes graph the outcomes figure, and the debug line the row count.\<close>

theorem reachable_displays:
  assumes "reachable a u"
    and "length (positions (columns a) ''Status_Mission'') \<le> 1" "length (positions (columns a) ''Status_Rocket'') \<le> 1"
  defines "dff \<equiv> filter_df a (country_value u) (company_value u) (slider_value u)"
  shows "(\<exists>s n. displayed u (''kpi-row'', ''children'') = Some (PCards (kpi_cards (length dff) s n))) \<and>
    displayed u (''debug'', ''children'') = Some (PText (''Filtered rows: '' @ str_int (int (length dff)))) \<and>
    (dff = [] \<longrightarrow> displayed u (''launches_time'', ''figure'') = Some (PFigure (Scatter ''No data for selected filters'' False))) \<and>
    (dff \<noteq> [] \<longrightarrow>
       displayed u (''launches_time'', ''figure'') =
         Some (PFigure (Line ''Number of Space Launches Per Year'' (launches_per_year (year_col a) dff))) \<and>
       displayed u (''top_countries'', ''figure'') =
         Some (PFigure (Bar ''Top Countries by Launches'' (top_countries (country_col a) dff))) \<and>
       (\<exists>f. outcomes_fig (columns a) (year_col a) dff = Inr f \<and>
            displayed u (''missions_outcomes'', ''figure'') = Some (PFigure f)))"
proof -
  obtain v where v: "update a (country_value u) (company_value u) (slider_value u) = Inr v" and o: "outputs u = Some v"
    using reachable_update [OF assms(1-3)] by blast
  show ?thesis using update_Inr [OF v] displayed_view [OF o] unfolding dff_def
    by (auto simp: str_int_0 split: if_splits)
qed

lemma app_ok_min_max: "app_ok a \<Longrightarrow> min_year a \<le> max_year a"
  unfolding app_ok_def list_all_iff by (cases "table a") (auto simp: Let_def)

text \<open>C19: Under the start-up invariant, in every reachable state the slider range lies inside the bounds and the selections are drawn from the dropdown options.\<close>

theorem reachable_inputs:
  assumes "reachable a u" "app_ok a"
  shows "min_year a \<le> fst (slider_value u) \<and> fst (slider_value u) \<le> snd (slider_value u) \<and>
         snd (slider_value u) \<le> max_year a \<and>
         set (case country_value u of None \<Rightarrow> [] | Some xs \<Rightarrow> xs) \<subseteq> set (country_options a) \<and>
         set (case company_value u of None \<Rightarrow> [] | Some xs \<Rightarrow> xs) \<subseteq> set (company_options a)"
  using assms(1)
proof induction
  case load
  then show ?case using app_ok_min_max [OF assms(2)] by simp
next
  case (step u e)
  then show ?case by (cases e) (auto simp: ui_step_def)
qed

text \<open>C18: Every combination of inputs the widgets allow (selections from the options, a slider range inside the bounds) is reached from the loaded page.\<close>

theorem every_input_reachable:
  assumes "set xs \<subseteq> set (country_options a)" "set ys \<subseteq> set (company_options a)"
    and "min_year a \<le> lo" "lo \<le> hi" "hi \<le> max_year a"
  shows "\<exists>u. reachable a u \<and> country_value u = Some xs \<and> company_value u = Some ys \<and> slider_value u = (lo, hi)"
proof -
  let ?u0 = "fire a (layout_init a)"
  let ?u1 = "ui_step a (SelectCountries xs) ?u0"
  let ?u2 = "ui_step a (SelectCompanies ys) ?u1"
  let ?u3 = "ui_step a (MoveSlider lo hi) ?u2"
  have "reachable a ?u3"
    by (intro reachable.intros) (simp_all add: assms)
  then show ?thesis by (auto simp: ui_step_def)
qed

text \<open>C3: On a dashboard that satisfies the start-up invariant, the callback run at page load (dropdowns empty, slider at the full range) shows every row of the table: the launch count, the per-year line and the country bars are those of the whole table.\<close>

theorem page_load:
  assumes "app_ok a"
    and "length (positions (columns a) ''Status_Mission'') \<le> 1" "length (positions (columns a) ''Status_Rocket'') \<le> 1"
  shows "\<exists>v s n. outputs (fire a (layout_init a)) = Some v \<and>
           kpis v = kpi_cards (length (table a)) s n \<and>
           launches_time v = Line ''Number of Space Launches Per Year'' (launches_per_year (year_col a) (table a)) \<and>
           top_countries_fig v = Bar ''Top Countries by Launches'' (top_countries (country_col a) (table a)) \<and>
           debug v = ''Filtered rows: '' @ str_int (int (length (table a)))"
proof -
  have dff: "filter_df a None None (min_year a, max_year a) = table a" by (rule filter_df_initial [OF assms(1)])
  have ne: "table a \<noteq> []" using assms(1) by (simp add: app_ok_def)
  obtain v where v: "update a None None (min_year a, max_year a) = Inr v"
    using update_total [OF assms(2,3)] by blast
  then have "outputs (fire a (layout_init a)) = Some v" by (simp add: fire_Inr)
  then show ?thesis using update_Inr [OF v] dff ne by auto
qed

end
