(* ===== verification/Abstract.thy ===== *)
theory Abstract
  imports Dashboard
begin

text \<open>
  An abstract specification of what the callback computes, stated over the multiset of
  rows (the table without its order), and the refinement lemmas that the list-based
  model implements it. The filter is a \<open>filter_mset\<close> of the table; the per-year
  launches and the mission outcomes are the histograms of the filtered rows, keys in
  ascending order. The country chart is not a function of the multiset: the order of
  countries with equal counts follows the order of the rows.
\<close>

section \<open>The specification\<close>

text \<open>The rows of the table that the inputs select, as a multiset.\<close>

definition selected_rows :: "app \<Rightarrow> cell list option \<Rightarrow> cell list option \<Rightarrow> int \<times> int \<Rightarrow> cell list multiset" where
  "selected_rows a sc sm yr = filter_mset (keeps a sc sm yr) (mset (table a))"

text \<open>How many rows of a multiset have key \<open>k\<close>.\<close>

definition hist :: "('r \<Rightarrow> 'k) \<Rightarrow> 'r multiset \<Rightarrow> 'k \<Rightarrow> nat" where
  "hist f M k = size (filter_mset (\<lambda>r. f r = k) M)"

text \<open>Grouping a multiset by a key: each key present, ascending, with its count.\<close>

definition group_spec :: "('r \<Rightarrow> 'k::linorder) \<Rightarrow> 'r multiset \<Rightarrow> ('k \<times> nat) list" where
  "group_spec f M = map (\<lambda>k. (k, hist f M k)) (sorted_list_of_set (f ` set_mset M))"

text \<open>What the charts of the callback show, from the multiset of selected rows.\<close>

definition launches_spec :: "app \<Rightarrow> cell list multiset \<Rightarrow> (int \<times> nat) list" where
  "launches_spec a M = group_spec (\<lambda>r. year_value (cell_at r (year_col a))) M"

definition outcomes_spec :: "app \<Rightarrow> nat \<Rightarrow> cell list multiset \<Rightarrow> ((int \<times> cell) \<times> nat) list" where
  "outcomes_spec a mi M =
     group_spec (\<lambda>r. (year_value (cell_at r (year_col a)), cell_at r mi)) (filter_mset (\<lambda>r. notna (cell_at r mi)) M)"

section \<open>Refinement lemmas\<close>

lemma hist_mset: "hist f (mset xs) k = count_list (map f xs) k"
  by (simp add: hist_def count_list_map_filter flip: mset_filter)

lemma group_size_refines: "group_size (map f xs) = group_spec f (mset xs)"
  by (simp add: group_size_def group_spec_def hist_mset sorted_list_of_set_sort_remdups flip: set_map)

lemma filter_df_refines: "mset (filter_df a sc sm yr) = selected_rows a sc sm yr"
  by (simp add: filter_df_spec selected_rows_def)

lemma launches_per_year_refines:
  "launches_per_year (year_col a) dff = launches_spec a (mset dff)"
  by (simp add: launches_per_year_eq launches_spec_def group_size_refines)

lemma outcomes_refines:
  "outcomes (year_col a) mi dff = outcomes_spec a mi (mset dff)"
  by (simp add: outcomes_def outcomes_spec_def group_size_refines flip: mset_filter)

lemma selected_rows_size: "size (selected_rows a sc sm yr) = length (filter_df a sc sm yr)"
  by (simp flip: filter_df_refines)

lemma selected_rows_empty: "selected_rows a sc sm yr = {#} \<longleftrightarrow> filter_df a sc sm yr = []"
  by (simp flip: filter_df_refines)

text \<open>C8: The callback refines the abstract specification over the multiset of selected rows: the Total launches card is the number of selected rows, the launches chart is the per-year histogram of those rows (a placeholder when there are none), and the outcomes chart is the histogram of their (year, outcome) pairs whenever an outcome is known.\<close>

theorem update_refines:
  assumes "update a sc sm yr = Inr v"
  defines "M \<equiv> selected_rows a sc sm yr"
  shows "(\<exists>s n. kpis v = kpi_cards (size M) s n) \<and>
    (M = {#} \<longrightarrow> launches_time v = Scatter ''No data for selected filters'' False) \<and>
    (M \<noteq> {#} \<longrightarrow> launches_time v = Line ''Number of Space Launches Per Year'' (launches_spec a M)) \<and>
    (\<forall>i. M \<noteq> {#} \<longrightarrow> lookup_col (columns a) ''Status_Mission'' = Unique i \<longrightarrow>
       filter_mset (\<lambda>r. notna (cell_at r i)) M \<noteq> {#} \<longrightarrow>
       missions_outcomes v = StackedBar ''Mission Outcomes Over Time'' (outcomes_spec a i M))"
proof -
  let ?dff = "filter_df a sc sm yr"
  have M: "M = mset ?dff" by (simp add: M_def filter_df_refines)
  have o: "\<And>i. ?dff \<noteq> [] \<Longrightarrow> lookup_col (columns a) ''Status_Mission'' = Unique i \<Longrightarrow>
      list_ex (\<lambda>r. notna (cell_at r i)) ?dff \<Longrightarrow>
      missions_outcomes v = StackedBar ''Mission Outcomes Over Time'' (outcomes_spec a i (mset ?dff))"
    using update_Inr [OF assms(1)] by (auto simp: outcomes_fig_def outcomes_refines)
  have ne: "\<And>i. filter_mset (\<lambda>r. notna (cell_at r i)) (mset ?dff) \<noteq> {#} \<longleftrightarrow> list_ex (\<lambda>r. notna (cell_at r i)) ?dff"
    by (simp add: list_ex_iff filter_empty_conv flip: mset_filter)
  show ?thesis
    using update_Inr [OF assms(1)] o ne unfolding M by (auto simp: launches_per_year_refines)
qed

text \<open>C25: The launches-per-year series depends only on the multiset of rows, not on their order.\<close>

theorem launches_per_year_perm:
  "mset xs = mset ys \<Longrightarrow> launches_per_year yi xs = launches_per_year yi ys"
  by (simp add: launches_per_year_eq group_size_refines)

end
