(* ===== verification/Charts.thy ===== *)
theory Charts
  imports Dashboard
begin

text \<open>
  The plotly express calls of the callback (\<open>src/dashboard.py\<close>, lines 96 and 97, 100
  to 102, 105 to 107, 111 and 112, 114): for each figure, the data frame it is given (its
  column names, built from the group keys by \<open>reset_index(name=...)\<close> and \<open>rename\<close>, and
  its rows), the columns bound to the x axis, the y axis and the colour, and the settings
  the script passes or updates afterwards.
\<close>

section \<open>Plots\<close>

record plot =
  p_kind :: string
  p_title :: string
  p_columns :: "string list"
  p_rows :: "cell list list"
  p_x :: "string option"
  p_y :: "string option"
  p_color :: "string option"
  p_markers :: bool
  p_barmode :: "string option"
  p_rangeslider :: bool
  p_tickangle :: "int option"
  p_axes_visible :: bool

text \<open>The columns of \<open>s.reset_index(name=n)\<close> for a series \<open>s\<close> indexed by the given keys:
  the index levels, then the values under the name \<open>n\<close>.\<close>

definition reset_index :: "string list \<Rightarrow> string \<Rightarrow> string list" where
  "reset_index keys name = keys @ [name]"

text \<open>\<open>frame.rename(columns=m)\<close> on the column names; a name \<open>m\<close> does not hold is kept.\<close>

definition rename_columns :: "(string \<times> string) list \<Rightarrow> string list \<Rightarrow> string list" where
  "rename_columns m cols = map (\<lambda>c. case map_of m c of Some d \<Rightarrow> d | None \<Rightarrow> c) cols"

text \<open>A plot with no data: \<open>px.scatter(title=...)\<close>.\<close>

definition empty_plot :: "string \<Rightarrow> bool \<Rightarrow> plot" where
  "empty_plot t vis =
     \<lparr>p_kind = ''scatter'', p_title = t, p_columns = [], p_rows = [], p_x = None, p_y = None,
      p_color = None, p_markers = False, p_barmode = None, p_rangeslider = False,
      p_tickangle = None, p_axes_visible = vis\<rparr>"

text \<open>Lines 100 to 102: \<open>groupby('Year').size().reset_index(name='Launches')\<close>;
  \<open>px.line(..., x='Year', y='Launches', markers=True, title=...)\<close> and a range slider
  under the x axis.\<close>

definition launches_plot :: "string \<Rightarrow> (int \<times> nat) list \<Rightarrow> plot" where
  "launches_plot t ps =
     \<lparr>p_kind = ''line'', p_title = t, p_columns = reset_index [''Year''] ''Launches'',
      p_rows = map (\<lambda>(y, n). [Num (of_int y), Num (of_nat n)]) ps,
      p_x = Some ''Year'', p_y = Some ''Launches'', p_color = None, p_markers = True,
      p_barmode = None, p_rangeslider = True, p_tickangle = None, p_axes_visible = True\<rparr>"

text \<open>Lines 105 to 107: \<open>dff['Country'].value_counts()\<close> is indexed by the country
  values, an index that keeps the name Country (pandas 2); \<open>reset_index(name='Total')\<close>
  and \<open>rename(columns={'index':'Country'})\<close>, which only acts where the index has no name
  (pandas 1, where it is called index); \<open>px.bar(country_counts.head(15), x='Country',
  y='Total')\<close> with tick labels at -45 degrees.\<close>

definition countries_plot :: "string \<Rightarrow> (cell \<times> nat) list \<Rightarrow> plot" where
  "countries_plot t cs =
     \<lparr>p_kind = ''bar'', p_title = t, p_columns = rename_columns [(''index'', ''Country'')] (reset_index [''Country''] ''Total''),
      p_rows = map (\<lambda>(c, n). [c, Num (of_nat n)]) cs,
      p_x = Some ''Country'', p_y = Some ''Total'', p_color = None, p_markers = False,
      p_barmode = None, p_rangeslider = False, p_tickangle = Some (-45), p_axes_visible = True\<rparr>"

text \<open>Lines 111 and 112: \<open>groupby(['Year','Status_Mission']).size().reset_index(name='Count')\<close>;
  \<open>px.bar(..., x='Year', y='Count', color='Status_Mission', barmode='stack')\<close>.\<close>

definition outcomes_plot :: "string \<Rightarrow> ((int \<times> cell) \<times> nat) list \<Rightarrow> plot" where
  "outcomes_plot t os =
     \<lparr>p_kind = ''bar'', p_title = t, p_columns = reset_index [''Year'', ''Status_Mission''] ''Count'',
      p_rows = map (\<lambda>((y, s), n). [Num (of_int y), s, Num (of_nat n)]) os,
      p_x = Some ''Year'', p_y = Some ''Count'', p_color = Some ''Status_Mission'', p_markers = False,
      p_barmode = Some ''stack'', p_rangeslider = False, p_tickangle = None, p_axes_visible = True\<rparr>"

fun render :: "figure \<Rightarrow> plot" where
  "render (Scatter t vis) = empty_plot t vis"
| "render (Line t ps) = launches_plot t ps"
| "render (Bar t cs) = countries_plot t cs"
| "render (StackedBar t os) = outcomes_plot t os"

end
