(* ===== verification/Spec2Isabelle.thy ===== *)
theory Spec2Isabelle
  imports Abstract Charts
begin

text \<open>
  \<^bold>\<open>A verification model of the space-missions dashboard\<close> (\<open>src/dashboard.py\<close>).

  \<^bold>\<open>The program.\<close> The script reads a CSV file once (line 7), normalises the
  column labels and the Year column (lines 8 to 10), computes the dropdown options and the
  year bounds (lines 13 to 15), and builds a Dash app whose layout (lines 17 to 58) holds two
  multi-select dropdowns, a range slider, a row for four KPI cards, three graphs and a debug
  line. One callback, \<open>update\<close> (lines 68 to 116), runs at page load and after every
  change of an input: it filters the table with \<open>filter_df\<close> (lines 60 to 66), counts
  the launches, successes and active rockets, formats the success rate, and builds the
  three figures, or three placeholders when no row is left.

  \<^bold>\<open>The theories\<close> (each imports the ones before it that it uses).
  \<^item> \<open>Prelude\<close>: Python's exceptions as the error type \<open>py_error\<close>, fallible results
    \<open>'a py = py_error + 'a\<close>, the fallible loop \<open>map_py\<close>, \<open>str.isspace\<close>,
    \<open>str.lower\<close> and \<open>str.strip\<close> on Latin-1 characters, and counting lemmas.
  \<^item> \<open>Decimal\<close>: \<open>str(int)\<close> (\<open>str_nat\<close>, \<open>str_int\<close>), CPython's \<open>int(text)\<close>
    (\<open>parse_int\<close>: whitespace, one sign, underscores between digits), rounding half to
    even, the IEEE binary64 rounding of a rational (\<open>to_double\<close>), \<open>round(x, 2)\<close>
    (\<open>py_round2\<close>) and the repr of a float with two decimals (\<open>repr_hundredths\<close>).
    Lemmas: \<open>parse_int_padded\<close> (the int round trip, whitespace around allowed) and
    \<open>parse_int_rejects\<close>, which the start-up theorems use, and the relative error
    \<open>2^-53\<close> of \<open>to_double\<close>, which the success-rate theorems use.
  \<^item> \<open>Frame\<close>: a cell of a frame (\<open>NaN | Num rat | Str string\<close>, ordered as
    \<open>sorted\<close> orders them), the frame \<open>read_csv\<close> returns (\<open>raw_frame\<close>), label lookup
    and the label normalisation of line 8 (\<open>normalize_column\<close>, with
    \<open>normalize_column_chars\<close>).
  \<^item> \<open>Load\<close>: the module state after line 15 as the record \<open>app\<close>; lines 9, 10, 13
    to 15 as \<open>dropna_year\<close>, \<open>astype_int\<close>, \<open>column_options\<close>, \<open>year_bounds\<close>, and
    all of them as \<open>startup\<close>; the slider marks of line 46 (\<open>py_range\<close>,
    \<open>slider_marks\<close>). The invariant \<open>app_ok\<close> is what a successful start-up
    guarantees (\<open>startup_app_ok\<close>); \<open>startup_rows\<close> says which rows are kept and
    \<open>startup_year_text\<close> how a padded year text is read; \<open>startup_no_year\<close>
    (\<open>KeyError(['Year'])\<close>) and \<open>startup_bad_year\<close> (\<open>ValueError\<close> or
    \<open>OverflowError\<close> from line 10) are its error paths; \<open>slider_marks_spec\<close> gives
    the marks of the slider.
  \<^item> \<open>Layout\<close>: the app (\<open>make_app\<close>) and its layout as a tree of components
    (\<open>layout\<close>), and how Dash finds a component by id (\<open>widget\<close>), from which the
    interaction reads the widgets' start values, options, \<open>multi\<close> flags and bounds.
  \<^item> \<open>Filtering\<close>: \<open>filter_df\<close> and its row-wise specification \<open>keeps\<close>;
    \<open>filter_df_rows\<close>, \<open>filter_df_mono\<close>, \<open>filter_df_None_Nil\<close>.
  \<^item> \<open>Aggregate\<close>: the KPI counts (\<open>count_success\<close>, \<open>count_active\<close>), the rate
    text \<open>success_rate\<close>, \<open>groupby().size()\<close> (\<open>group_size\<close>), \<open>value_counts\<close>,
    and the three chart series; lemmas on totals, key order, the top fifteen, and the
    printed rate (\<open>success_rate_bounds\<close>: within one half of a hundredth of the exact
    rate; \<open>success_rate_exact\<close>: exact when the rate has two decimals).
  \<^item> \<open>Dashboard\<close>: the KPI cards, the figures, the callback \<open>update\<close>, and the
    interaction: the page state \<open>ui\<close> (the three inputs and the last outputs), started
    from the widget values of the layout (\<open>layout_init\<close>), the events the widgets allow
    (\<open>event_allowed\<close>), the decorator's lists \<open>callback_outputs\<close> and
    \<open>callback_inputs\<close> (lines 69 to 76), \<open>fire\<close> (Dash calling \<open>update\<close> with the
    values of the inputs in the order of the Input list, \<open>call_update\<close>; an exception
    leaves the page unchanged), \<open>displayed\<close> (the i-th component of the returned
    tuple goes to the i-th Output) and the inductive relation \<open>reachable\<close>. Lemmas:
    exactly when the callback raises (\<open>update_Inr_iff\<close>), its outputs in each branch,
    what the loaded page shows (\<open>page_load\<close>), what each output component shows in
    every reachable state (\<open>reachable_displays\<close>, which depends on the order of both
    lists and of the returned tuple), that the inputs stay within the widgets' ranges
    (\<open>reachable_inputs\<close>, by rule induction) and that every input the widgets allow is
    reached (\<open>every_input_reachable\<close>).
  \<^item> \<open>Charts\<close>: the plotly express call behind each figure (\<open>render\<close>): the frame
    (columns built from the group keys by \<open>reset_index\<close> and \<open>rename_columns\<close>, and
    rows), the x, y and colour columns, markers, barmode, the range slider, the tick angle
    and the hidden axes of the empty-data placeholders. This theory holds definitions only.
  \<^item> \<open>Abstract\<close>: the specification of the callback over the multiset of selected
    rows (\<open>selected_rows\<close>, histograms \<open>hist\<close>, grouping \<open>group_spec\<close>) and the
    refinement \<open>update_refines\<close>; the launches series is invariant under reordering
    the rows (\<open>launches_per_year_perm\<close>). The country series is not a function of the
    multiset: countries with equal counts keep the order of the rows.
  \<^item> this theory: the consistency of the callback's outputs across components
    (\<open>update_consistent\<close>: the chart counts against the KPI card) and across the
    interaction (\<open>shown_view_consistent\<close>: the shown card and debug text agree with the
    current inputs in every reachable state), a sample data set
    with its start-up and callback results computed by \<open>code_simp\<close>, and the witnesses
    of the theorems with hypotheses. The sample callback run uses a one-year range, whose
    success rate (0 of 1) evaluates quickly; evaluating the binary64 model on 2 of 3 takes
    minutes under \<open>code_simp\<close>, so the witnesses for other rates discharge only the
    hypotheses.

  \<^bold>\<open>Modelling choices.\<close> pandas' \<open>NaN\<close> is the cell \<open>NaN\<close>; a number read by
  \<open>read_csv\<close> is a rational (every binary64 value is one). A label held by several
  columns makes \<open>df[label]\<close> a frame, and the model follows what pandas then does
  (\<open>TypeError\<close> from \<open>int\<close> of a series, \<open>AttributeError\<close> for \<open>.str\<close> or
  \<open>.unique\<close>, \<open>ValueError\<close> for the truth value of a series). The success rate
  follows CPython exactly: \<open>succ/total\<close> and \<open>*100\<close> are each rounded to binary64
  (53-bit significand, round half to even; the values stay far inside the normal range,
  so no exponent bound is needed), \<open>round(., 2)\<close> rounds the exact double half to
  even, and the repr of the result has one or two decimals. Python integers are
  unbounded and modelled as \<open>int\<close>/\<open>nat\<close>; the Year column after \<open>astype(int)\<close>
  holds 64-bit integers, and a year text outside that range raises \<open>OverflowError\<close>
  as numpy does. \<open>KeyError\<close> carries its key, a label or a list of labels. \<open>value_counts\<close> breaks ties by first
  appearance. A Dash dropdown with \<open>multi=True\<close> yields a list of its option values
  (the empty list when cleared); a range slider with step 1 yields an ordered pair of
  integers within its bounds. The recursions \<open>str_nat\<close>, \<open>py_range\<close>,
  \<open>binexp_up\<close>, \<open>binexp_down\<close> and \<open>components\<close> are total functions with
  termination proofs, so no fuel is used.

  \<^bold>\<open>Not modelled.\<close> The CSV parser itself (the model starts from its result), the
  cast of a float year beyond the 64-bit range (numpy casts it without a check; the model
  keeps the truncated value), the
  drawing of the figures by plotly (the model stops at the arguments the script passes;
  colours and sizes are plotly's defaults), the inline styles of the layout (presentation
  only, no value the callback reads), Dash's server and
  \<open>run_server\<close> (line 119), and characters outside Latin-1 (an Isabelle \<open>char\<close>
  holds 256 code points).
\<close>


section \<open>A sample data set\<close>

text \<open>Four launches as \<open>read_csv\<close> returns them: the headers carry a space and a
  leading blank, one year is missing and one is a padded text.\<close>

definition sample_raw :: raw_frame where
  "sample_raw = \<lparr>header = [''Company Name'', ''Country'', '' Year'', ''Status Mission'', ''Status Rocket''],
     body = [[Str ''SpaceX'', Str ''USA'', Num 2020, Str ''Success'', Str ''StatusActive''],
             [Str ''CASC'', Str ''China'', Num 2019, Str ''Failure'', Str ''Active''],
             [Str ''RVSN'', Str ''Russia'', NaN, Str ''Success'', Str ''StatusRetired''],
             [Str ''SpaceX'', Str ''USA'', Str '' 2021 '', Str ''Success'', Str ''ACTIVE'']]\<rparr>"

definition sample_app :: app where
  "sample_app = \<lparr>columns = [''Company_Name'', ''Country'', ''Year'', ''Status_Mission'', ''Status_Rocket''],
     table = [[Str ''SpaceX'', Str ''USA'', Num 2020, Str ''Success'', Str ''StatusActive''],
              [Str ''CASC'', Str ''China'', Num 2019, Str ''Failure'', Str ''Active''],
              [Str ''SpaceX'', Str ''USA'', Num 2021, Str ''Success'', Str ''ACTIVE'']],
     year_col = 2, country_col = 1, company_col = 0,
     country_options = [Str ''China'', Str ''USA''], company_options = [Str ''CASC'', Str ''SpaceX''],
     min_year = 2019, max_year = 2021\<rparr>"

text \<open>What the callback shows for the year 2019 alone.\<close>

definition sample_view :: view where
  "sample_view = \<lparr>kpis = kpi_cards 1 0 1,
     launches_time = Line ''Number of Space Launches Per Year'' [(2019, 1)],
     top_countries_fig = Bar ''Top Countries by Launches'' [(Str ''China'', 1)],
     missions_outcomes = StackedBar ''Mission Outcomes Over Time'' [((2019, Str ''Failure''), 1)],
     debug = ''Filtered rows: 1''\<rparr>"

text \<open>A file whose only year is a text that is not an integer.\<close>

definition bad_year_raw :: raw_frame where
  "bad_year_raw = \<lparr>header = [''Year''], body = [[Str ''12a'']]\<rparr>"

text \<open>Seventeen rows over sixteen countries, so that one country is left out of the top fifteen.\<close>

definition many_countries :: "cell list list" where
  "many_countries = map (\<lambda>i. [Str (str_nat i)]) ([0..<16] @ [0])"

section \<open>Consistency of the callback's outputs\<close>

text \<open>C7: Whenever the callback shows charts, the per-year launch counts add up to the Total launches card, and the counts of the country bars and of the outcome bars are at most that total.\<close>

theorem update_consistent:
  assumes "update a sc sm yr = Inr v" "filter_df a sc sm yr \<noteq> []"
  shows "\<exists>t s n ps cs. kpis v = kpi_cards t s n \<and>
           launches_time v = Line ''Number of Space Launches Per Year'' ps \<and> (\<Sum>p\<leftarrow>ps. snd p) = t \<and>
           top_countries_fig v = Bar ''Top Countries by Launches'' cs \<and> (\<Sum>p\<leftarrow>cs. snd p) \<le> t \<and>
           (\<forall>title os. missions_outcomes v = StackedBar title os \<longrightarrow> (\<Sum>p\<leftarrow>os. snd p) \<le> t)"
proof -
  let ?dff = "filter_df a sc sm yr"
  obtain s n where k: "kpis v = kpi_cards (length ?dff) s n"
    and l: "launches_time v = Line ''Number of Space Launches Per Year'' (launches_per_year (year_col a) ?dff)"
    and c: "top_countries_fig v = Bar ''Top Countries by Launches'' (top_countries (country_col a) ?dff)"
    and o: "outcomes_fig (columns a) (year_col a) ?dff = Inr (missions_outcomes v)"
    using update_Inr [OF assms(1)] assms(2) by auto
  have "(\<Sum>p\<leftarrow>launches_per_year (year_col a) ?dff. snd p) = length ?dff"
    by (simp add: launches_per_year_eq group_size_sum)
  moreover have "\<forall>title os. missions_outcomes v = StackedBar title os \<longrightarrow> (\<Sum>p\<leftarrow>os. snd p) \<le> length ?dff"
    using o outcomes_fig_sum by metis
  ultimately show ?thesis using k l c top_countries_sum by blast
qed


section \<open>The sample run\<close>

lemma sample_startup: "startup sample_raw = Inr sample_app"
  by code_simp

lemma sample_app_ok: "app_ok sample_app"
  by code_simp

lemma sample_status_cols:
  "length (positions (columns sample_app) ''Status_Mission'') \<le> 1"
  "length (positions (columns sample_app) ''Status_Rocket'') \<le> 1"
  by code_simp+

lemma sample_years: "min_year sample_app = 2019" "max_year sample_app = 2021"
  by (simp_all add: sample_app_def)

lemma sample_update: "update sample_app None None (2019, 2019) = Inr sample_view"
  by code_simp

lemma sample_update_view: "kpis sample_view = [make_kpi_card ''Total launches'' (KCount 1),
    make_kpi_card ''Total successes'' (KCount 0), make_kpi_card ''Success rate'' (KText ''0.0%''),
    make_kpi_card ''Active rockets'' (KCount 1)]"
  by code_simp

lemma sample_filter_len: "length (filter_df sample_app None None (2019, 2019)) = 1"
  by code_simp

lemma sample_filter_empty: "filter_df sample_app None None (1990, 1999) = []"
  by code_simp

lemma sample_update_empty: "update sample_app None None (1990, 1999) = Inr
    \<lparr>kpis = [make_kpi_card ''Total launches'' (KCount 0), make_kpi_card ''Total successes'' (KCount 0),
             make_kpi_card ''Success rate'' (KText ''N/A''), make_kpi_card ''Active rockets'' (KCount 0)],
     launches_time = Scatter ''No data for selected filters'' False,
     top_countries_fig = Scatter ''No data for selected filters'' False,
     missions_outcomes = Scatter ''No data for selected filters'' False,
     debug = ''Filtered rows: 0''\<rparr>"
  by code_simp

section \<open>Witnesses\<close>

theorem update_consistent_witness:
  "update sample_app None None (2019, 2019) = Inr sample_view \<and> filter_df sample_app None None (2019, 2019) \<noteq> [] \<and>
   (\<exists>t s n ps cs. kpis sample_view = kpi_cards t s n \<and>
      launches_time sample_view = Line ''Number of Space Launches Per Year'' ps \<and> (\<Sum>p\<leftarrow>ps. snd p) = t \<and>
      top_countries_fig sample_view = Bar ''Top Countries by Launches'' cs \<and> (\<Sum>p\<leftarrow>cs. snd p) \<le> t \<and>
      (\<forall>title os. missions_outcomes sample_view = StackedBar title os \<longrightarrow> (\<Sum>p\<leftarrow>os. snd p) \<le> t))"
proof -
  have ne: "filter_df sample_app None None (2019, 2019) \<noteq> []" using sample_filter_len by auto
  show ?thesis using sample_update ne update_consistent [OF sample_update ne] by blast
qed

theorem startup_app_ok_witness: "startup sample_raw = Inr sample_app \<and> app_ok sample_app"
  using sample_startup Load.startup_app_ok [OF sample_startup] by simp

theorem page_load_witness:
  "app_ok sample_app \<and>
   (\<exists>v s n. outputs (fire sample_app (layout_init sample_app)) = Some v \<and>
      kpis v = kpi_cards (length (table sample_app)) s n \<and>
      launches_time v = Line ''Number of Space Launches Per Year''
        (launches_per_year (year_col sample_app) (table sample_app)) \<and>
      top_countries_fig v = Bar ''Top Countries by Launches''
        (top_countries (country_col sample_app) (table sample_app)) \<and>
      debug v = ''Filtered rows: '' @ str_int (int (length (table sample_app))))"
  using Dashboard.page_load [OF sample_app_ok sample_status_cols] sample_app_ok by blast

theorem filter_df_rows_witness:
  "app_ok sample_app \<and>
   [Str ''SpaceX'', Str ''USA'', Num 2020, Str ''Success'', Str ''StatusActive''] \<in>
     set (filter_df sample_app (Some [Str ''USA'']) None (2020, 2021))"
proof -
  let ?r = "[Str ''SpaceX'', Str ''USA'', Num 2020, Str ''Success'', Str ''StatusActive'']"
  have "?r \<in> set (table sample_app)" by code_simp
  moreover have "year_value (cell_at ?r (year_col sample_app)) = 2020" by code_simp
  moreover have "selects (country_col sample_app) (Some [Str ''USA'']) ?r" by code_simp
  moreover have "selects (company_col sample_app) None ?r" by (simp add: selects_def)
  ultimately show ?thesis
    using Filtering.filter_df_rows [OF sample_app_ok, of ?r "Some [Str ''USA'']" None 2020 2021] sample_app_ok
    by simp
qed

theorem filter_df_mono_witness:
  "subseq (filter_df sample_app (Some [Str ''USA'']) None (2020, 2020))
          (filter_df sample_app None None (2019, 2021))"
  by (rule Filtering.filter_df_mono [where lo' = 2019 and lo = 2020 and hi = 2020 and hi' = 2021])
     (simp_all add: selects_def)

theorem update_kpis_witness:
  "update sample_app None None (2019, 2019) = Inr sample_view \<and>
   (\<exists>s n. kpis sample_view = kpi_cards 1 s n \<and> s \<le> 1 \<and> n \<le> 1)"
  using sample_update Dashboard.update_kpis [OF sample_update] by (simp add: sample_filter_len)

theorem update_empty_witness:
  "filter_df sample_app None None (1990, 1999) = [] \<and>
   debug (projr (update sample_app None None (1990, 1999))) = ''Filtered rows: 0''"
  using Dashboard.update_empty [OF sample_update_empty sample_filter_empty] sample_filter_empty
  by (simp add: sample_update_empty)

theorem update_debug_witness:
  "update sample_app None None (2019, 2019) = Inr sample_view \<and>
   debug sample_view = ''Filtered rows: '' @ str_int 1"
  using sample_update Dashboard.update_debug [OF sample_update] by (simp add: sample_filter_len)

theorem success_rate_bounds_witness:
  "\<exists>h. success_rate 2 3 = repr_hundredths h @ ''%'' \<and> h \<le> 10000 \<and>
     \<bar>of_nat h - 10000 * 2 / 3\<bar> \<le> (1/2 + 1/10^11 :: rat)"
  using Aggregate.success_rate_bounds [of 2 3] by simp

theorem every_input_reachable_witness:
  "\<exists>u. reachable sample_app u \<and> country_value u = Some [Str ''USA''] \<and>
     company_value u = Some [Str ''SpaceX''] \<and> slider_value u = (2020, 2021)"
  by (rule Dashboard.every_input_reachable) (simp_all add: sample_app_def)

theorem reachable_inputs_witness:
  "reachable sample_app (fire sample_app (layout_init sample_app)) \<and>
   2019 \<le> fst (slider_value (fire sample_app (layout_init sample_app))) \<and>
   snd (slider_value (fire sample_app (layout_init sample_app))) \<le> 2021"
proof -
  have r: "reachable sample_app (fire sample_app (layout_init sample_app))" by (rule reachable.load)
  show ?thesis using Dashboard.reachable_inputs [OF r sample_app_ok] r by (simp add: sample_years)
qed

theorem top_countries_top_witness:
  "(Str ''0'', 2) \<in> set (top_countries 0 many_countries) \<and>
   count_list (map (\<lambda>r. cell_at r 0) many_countries) (Str ''15'') \<le> 2"
proof -
  have t: "(Str ''0'', 2) \<in> set (top_countries 0 many_countries)" by code_simp
  have "notna (Str ''15'')" by (simp add: notna_def)
  moreover have "Str ''15'' \<in> set (map (\<lambda>r. cell_at r 0) many_countries)" by code_simp
  moreover have "Str ''15'' \<notin> fst ` set (top_countries 0 many_countries)" by code_simp
  ultimately show ?thesis using Aggregate.top_countries_top [OF t] t by blast
qed

theorem startup_no_year_witness:
  "''Year'' \<notin> set (map normalize_column [''Launch Year'']) \<and>
   startup \<lparr>header = [''Launch Year''], body = []\<rparr> = Inl (KeyError (KLabels [''Year'']))"
proof -
  have h: "''Year'' \<notin> set (map normalize_column (header \<lparr>header = [''Launch Year''], body = []\<rparr>))"
    by code_simp
  show ?thesis using h Load.startup_no_year [OF h] by simp
qed

theorem startup_rows_witness:
  "startup sample_raw = Inr sample_app \<and> columns sample_app = map normalize_column (header sample_raw) \<and>
   length (table sample_app) = length (filter (\<lambda>r. cell_at r (year_col sample_app) \<noteq> NaN) (body sample_raw))"
  using sample_startup Load.startup_rows [OF sample_startup] by blast

theorem success_rate_exact_witness: "success_rate 1 2 = ''50.0%''"
proof -
  have "success_rate 1 2 = repr_hundredths 5000 @ ''%''"
    by (rule Aggregate.success_rate_exact) simp_all
  moreover have "repr_hundredths 5000 = ''50.0''" by code_simp
  ultimately show ?thesis by simp
qed

theorem update_refines_witness:
  "update sample_app None None (2019, 2019) = Inr sample_view \<and>
   selected_rows sample_app None None (2019, 2019) \<noteq> {#} \<and>
   launches_time sample_view = Line ''Number of Space Launches Per Year''
     (launches_spec sample_app (selected_rows sample_app None None (2019, 2019)))"
proof -
  have ne: "selected_rows sample_app None None (2019, 2019) \<noteq> {#}"
    using sample_filter_len by (auto simp: selected_rows_empty)
  show ?thesis using sample_update ne Abstract.update_refines [OF sample_update] by blast
qed

theorem launches_per_year_perm_witness:
  "launches_per_year 2 (table sample_app) = launches_per_year 2 (rev (table sample_app))"
  using Abstract.launches_per_year_perm [of "table sample_app" "rev (table sample_app)" 2] by simp


theorem reachable_displays_witness:
  "reachable sample_app (fire sample_app (layout_init sample_app)) \<and>
   filter_df sample_app None None (2019, 2021) \<noteq> [] \<and>
   displayed (fire sample_app (layout_init sample_app)) (''launches_time'', ''figure'') =
     Some (PFigure (Line ''Number of Space Launches Per Year''
       (launches_per_year (year_col sample_app) (filter_df sample_app None None (2019, 2021))))) \<and>
   displayed (fire sample_app (layout_init sample_app)) (''top_countries'', ''figure'') =
     Some (PFigure (Bar ''Top Countries by Launches''
       (top_countries (country_col sample_app) (filter_df sample_app None None (2019, 2021)))))"
proof -
  have r: "reachable sample_app (fire sample_app (layout_init sample_app))" by (rule reachable.load)
  have ne: "filter_df sample_app None None (2019, 2021) \<noteq> []" by code_simp
  show ?thesis using r ne Dashboard.reachable_displays [OF r sample_status_cols] by (simp add: sample_years)
qed

theorem startup_bad_year_witness:
  "positions (map normalize_column (header bad_year_raw)) ''Year'' = [0] \<and>
   [Str ''12a''] \<in> set (body bad_year_raw) \<and> cell_at [Str ''12a''] 0 = Str ''12a'' \<and>
   \<not> (\<exists>k. parse_int ''12a'' = Inr k \<and> - (2 ^ 63) \<le> k \<and> k < 2 ^ 63) \<and>
   (\<exists>m. startup bad_year_raw = Inl (ValueError m) \<or> startup bad_year_raw = Inl (OverflowError m))"
proof -
  have p: "positions (map normalize_column (header bad_year_raw)) ''Year'' = [0]" by code_simp
  have m: "[Str ''12a''] \<in> set (body bad_year_raw)" by (simp add: bad_year_raw_def)
  have c: "cell_at [Str ''12a''] 0 = Str ''12a''" by simp
  have "CHR ''a'' \<in> set (py_strip ''12a'')" by code_simp
  moreover have "\<not> is_digit (CHR ''a'')" by (simp add: is_digit_def)
  ultimately have "parse_int ''12a'' = Inl (ValueError ''12a'')" by (rule parse_int_rejects) simp
  then have n: "\<not> (\<exists>k. parse_int ''12a'' = Inr k \<and> - (2 ^ 63) \<le> k \<and> k < 2 ^ 63)" by simp
  show ?thesis using p m c n Load.startup_bad_year [OF p m c n] by blast
qed

theorem startup_year_text_witness:
  "startup sample_raw = Inr sample_app \<and>
   [Str ''SpaceX'', Str ''USA'', Str '' 2021 '', Str ''Success'', Str ''ACTIVE''] \<in> set (body sample_raw) \<and>
   cell_at [Str ''SpaceX'', Str ''USA'', Str '' 2021 '', Str ''Success'', Str ''ACTIVE''] (year_col sample_app) =
     Str ('' '' @ str_int 2021 @ '' '') \<and> list_all is_py_space '' '' \<and>
   [Str ''SpaceX'', Str ''USA'', Num 2021, Str ''Success'', Str ''ACTIVE''] \<in> set (table sample_app)"
proof -
  let ?r = "[Str ''SpaceX'', Str ''USA'', Str '' 2021 '', Str ''Success'', Str ''ACTIVE'']"
  have m: "?r \<in> set (body sample_raw)" by (simp add: sample_raw_def)
  have c: "cell_at ?r (year_col sample_app) = Str ('' '' @ str_int 2021 @ '' '')" by code_simp
  have sp: "list_all is_py_space '' ''" by (simp add: is_py_space_def)
  have "?r[year_col sample_app := Num (of_int 2021)] \<in> set (table sample_app)"
    by (rule Load.startup_year_text [OF sample_startup m c sp sp]) simp_all
  then show ?thesis using sample_startup m c sp by (simp add: sample_app_def)
qed

end
